theory Spec2Isabelle
  imports Complex_Main "HOL-Library.AList"
begin

text \<open>
  A shallow embedding of the expense tracker's web service: the route tables of the
  application and its routers, the rows of the \<^verbatim>\<open>users\<close> and \<^verbatim>\<open>expenses\<close> tables, the
  handlers of the Expense Ledger and of the User Registry as functions from the request's
  inputs and the database to an error or a result with the new database, and the Token
  Service. The clock (\<^verbatim>\<open>datetime.utcnow()\<close>) and the salt of a password hash are
  arguments of the functions that read them. The definitions come first, the properties
  after them.
\<close>

section \<open>The HTTP surface: routers and their registration\<close>

text \<open>
  \<^verbatim>\<open>app/routers/expense.py\<close> and \<^verbatim>\<open>app/routers/auth.py\<close> each build an
  \<^verbatim>\<open>APIRouter\<close> with a prefix and decorate their handlers with a method and a path
  template. \<^verbatim>\<open>app/main.py\<close> builds the application, registers routers with
  \<^verbatim>\<open>app.include_router\<close> and declares two routes of its own. A path is a list of
  segments; a template segment is a literal or a path parameter.
\<close>

datatype http_method = GET | POST | PUT | DELETE

datatype segment = Lit string | Param string

record route =
  r_method :: http_method
  r_path :: "segment list"
  r_handler :: string

record APIRouter =
  prefix :: "segment list"
  routes :: "route list"

text \<open>The router of \<^verbatim>\<open>app/routers/expense.py\<close>, in the order of its decorators.\<close>

definition expense_router :: APIRouter where
  "expense_router = \<lparr> prefix = [Lit ''api'', Lit ''expenses''],
     routes = [
       \<lparr> r_method = POST, r_path = [Lit ''''], r_handler = ''create_expense'' \<rparr>,
       \<lparr> r_method = GET, r_path = [Lit ''''], r_handler = ''get_expenses'' \<rparr>,
       \<lparr> r_method = GET, r_path = [Lit ''statistics''], r_handler = ''get_expense_statistics'' \<rparr>,
       \<lparr> r_method = GET, r_path = [Param ''expense_id''], r_handler = ''get_expense'' \<rparr>,
       \<lparr> r_method = PUT, r_path = [Param ''expense_id''], r_handler = ''update_expense'' \<rparr>,
       \<lparr> r_method = DELETE, r_path = [Param ''expense_id''], r_handler = ''delete_expense'' \<rparr>,
       \<lparr> r_method = GET, r_path = [Lit ''recent'', Lit ''week''], r_handler = ''get_week_expenses'' \<rparr>,
       \<lparr> r_method = GET, r_path = [Lit ''recent'', Lit ''month''], r_handler = ''get_month_expenses'' \<rparr>
     ] \<rparr>"

text \<open>The router of \<^verbatim>\<open>app/routers/auth.py\<close>.\<close>

definition auth_router :: APIRouter where
  "auth_router = \<lparr> prefix = [Lit ''api'', Lit ''auth''],
     routes = [
       \<lparr> r_method = POST, r_path = [Lit ''register''], r_handler = ''register'' \<rparr>,
       \<lparr> r_method = POST, r_path = [Lit ''login''], r_handler = ''login'' \<rparr>,
       \<lparr> r_method = GET, r_path = [Lit ''me''], r_handler = ''get_current_user_profile'' \<rparr>,
       \<lparr> r_method = PUT, r_path = [Lit ''me''], r_handler = ''update_profile'' \<rparr>,
       \<lparr> r_method = POST, r_path = [Lit ''logout''], r_handler = ''logout'' \<rparr>,
       \<lparr> r_method = DELETE, r_path = [Lit ''me''], r_handler = ''delete_account'' \<rparr>
     ] \<rparr>"

text \<open>
  \<^verbatim>\<open>include_router\<close> appends the router's routes, each under the router's prefix, to the
  application's route table.
\<close>

definition include_router :: "route list \<Rightarrow> APIRouter \<Rightarrow> route list" where
  "include_router table r = table @ map (\<lambda>x. x\<lparr> r_path := prefix r @ r_path x \<rparr>) (routes r)"

text \<open>
  The route table of \<^verbatim>\<open>app/main.py\<close>: the only call of \<^verbatim>\<open>include_router\<close> is
  \<^verbatim>\<open>app.include_router(auth.router)\<close> (the module imports \<^verbatim>\<open>auth\<close> alone from
  \<^verbatim>\<open>app.routers\<close>), followed by the routes \<^verbatim>\<open>/\<close> and \<^verbatim>\<open>/health\<close>.
\<close>

definition app :: "route list" where
  "app = include_router [] auth_router @
     [\<lparr> r_method = GET, r_path = [Lit ''''], r_handler = ''root'' \<rparr>,
      \<lparr> r_method = GET, r_path = [Lit ''health''], r_handler = ''health_check'' \<rparr>]"

text \<open>
  A request path matches a template when they have the same number of segments, a literal
  equals its segment and a parameter takes any non-empty segment. The first matching route
  of the table handles the request.
\<close>

fun matches :: "segment list \<Rightarrow> string list \<Rightarrow> bool" where
  "matches [] [] = True"
| "matches (Lit l # ts) (s # ss) = (l = s \<and> matches ts ss)"
| "matches (Param p # ts) (s # ss) = (s \<noteq> [] \<and> matches ts ss)"
| "matches _ _ = False"

definition dispatch :: "route list \<Rightarrow> http_method \<Rightarrow> string list \<Rightarrow> string option" where
  "dispatch table m path =
     map_option r_handler (find (\<lambda>r. r_method r = m \<and> matches (r_path r) path) table)"

text \<open>The eight requests of the Expense Ledger surface, with a sample id and the handler
  the expense router gives each.\<close>

definition expense_requests :: "(http_method \<times> string list \<times> string) list" where
  "expense_requests = [
     (POST, [''api'', ''expenses'', ''''], ''create_expense''),
     (GET, [''api'', ''expenses'', ''''], ''get_expenses''),
     (GET, [''api'', ''expenses'', ''statistics''], ''get_expense_statistics''),
     (GET, [''api'', ''expenses'', ''7''], ''get_expense''),
     (PUT, [''api'', ''expenses'', ''7''], ''update_expense''),
     (DELETE, [''api'', ''expenses'', ''7''], ''delete_expense''),
     (GET, [''api'', ''expenses'', ''recent'', ''week''], ''get_week_expenses''),
     (GET, [''api'', ''expenses'', ''recent'', ''month''], ''get_month_expenses'')]"

section \<open>The data model\<close>

text \<open>
  \<^verbatim>\<open>app/models/models.py\<close>. A \<^verbatim>\<open>DateTime\<close> is a number of seconds since the epoch,
  a \<^verbatim>\<open>timedelta\<close> a number of seconds. A column declared \<^verbatim>\<open>nullable=False\<close> has
  the type of its values; a nullable column has an option type, \<open>None\<close> for SQL NULL.
\<close>

type_synonym datetime = int

definition timedelta_days :: "int \<Rightarrow> int" where
  "timedelta_days d = d * 86400"


definition timedelta_minutes :: "int \<Rightarrow> int" where
  "timedelta_minutes m = m * 60"

datatype ExpenseCategory =
  FOOD | TRANSPORT | UTILITIES | ENTERTAINMENT | HEALTHCARE | SHOPPING | EDUCATION | OTHER


text \<open>
  A stored password hash. \<^verbatim>\<open>passlib\<close>'s bcrypt context is an external library; it is
  modelled symbolically, following section 4.1 of the specification: the hash embeds the
  salt drawn for it, and a plaintext verifies against a hash exactly when it is the one
  that was hashed. The salt, random in the code, is an argument of the model.
\<close>

datatype pwhash = Bcrypt (salt: nat) (plaintext: string)

definition get_password_hash :: "nat \<Rightarrow> string \<Rightarrow> pwhash" where
  "get_password_hash s password = Bcrypt s password"

definition verify_password :: "string \<Rightarrow> pwhash \<Rightarrow> bool" where
  "verify_password plain_password hashed_password = (plaintext hashed_password = plain_password)"

record User =
  u_id :: int
  u_email :: string
  u_username :: string
  u_hashed_password :: pwhash
  u_full_name :: "string option"
  u_is_active :: int
  u_created_at :: datetime

text \<open>
  An amount is a Python \<^verbatim>\<open>float\<close>; it is modelled by the rational number it denotes
  (see the section on statistics for the arithmetic).
\<close>

record Expense =
  e_id :: int
  e_title :: string
  e_amount :: rat
  e_category :: ExpenseCategory
  e_description :: "string option"
  e_date :: "datetime option"
  e_created_at :: datetime
  e_updated_at :: datetime
  e_user_id :: int
  e_ai_confidence :: "rat option"
  e_ai_suggested_category :: "string option"

text \<open>
  The database a request's session sees: the rows of the two tables in the order the
  database returns them, and the AUTO_INCREMENT counter of \<^verbatim>\<open>users.id\<close>.
\<close>

record database =
  users :: "User list"
  expenses :: "Expense list"
  users_next_id :: int

text \<open>
  What a request can end in instead of a result: an \<^verbatim>\<open>HTTPException\<close> raised by the
  handler, with its status code and detail; the framework's rejection (status 422) of a
  parameter outside the bounds its declaration gives; or the database's refusal, at
  \<^verbatim>\<open>commit\<close>, of NULL in a \<^verbatim>\<open>nullable=False\<close> column.
\<close>

datatype error =
  HTTPException (status_code: nat) (detail: string)
| RequestValidationError
| IntegrityError

section \<open>The Expense Ledger\<close>

text \<open>
  \<^verbatim>\<open>app/routers/expense.py\<close>. Every handler receives the authenticated user
  \<^verbatim>\<open>current_user\<close> and the session. \<^verbatim>\<open>query.filter(c).first()\<close> is the first row that
  satisfies \<open>c\<close>; an ORM row is always truthy, so \<^verbatim>\<open>if not expense\<close> tests for None.
\<close>

definition owned_expense :: "int \<Rightarrow> User \<Rightarrow> database \<Rightarrow> Expense option" where
  "owned_expense expense_id current_user db =
     find (\<lambda>e. e_id e = expense_id \<and> e_user_id e = u_id current_user) (expenses db)"

definition get_expense :: "int \<Rightarrow> User \<Rightarrow> database \<Rightarrow> error + Expense" where
  "get_expense expense_id current_user db =
     (case owned_expense expense_id current_user db of
        None \<Rightarrow> Inl (HTTPException 404 ''Expense not found'')
      | Some expense \<Rightarrow> Inr expense)"

text \<open>
  \<^verbatim>\<open>db.delete(expense); db.commit()\<close> removes the row with the primary key of the
  expense found.
\<close>

definition delete_expense :: "int \<Rightarrow> User \<Rightarrow> database \<Rightarrow> error + (database \<times> string)" where
  "delete_expense expense_id current_user db =
     (case owned_expense expense_id current_user db of
        None \<Rightarrow> Inl (HTTPException 404 ''Expense not found'')
      | Some expense \<Rightarrow>
          Inr (db\<lparr> expenses := filter (\<lambda>e. e_id e \<noteq> e_id expense) (expenses db) \<rparr>,
               ''Expense deleted successfully''))"

text \<open>
  \<^verbatim>\<open>ExpenseUpdate\<close>: every field is optional, and \<^verbatim>\<open>dict(exclude_unset=True)\<close> keeps
  the fields the request body set, an explicit \<^verbatim>\<open>null\<close> among them. A field is thus
  unset, or given with a value that may be None.
\<close>

datatype 'a field = Unset | Given 'a

record ExpenseUpdate =
  p_title :: "string option field"
  p_amount :: "rat option field"
  p_category :: "ExpenseCategory option field"
  p_description :: "string option field"
  p_date :: "datetime option field"

text \<open>
  \<^verbatim>\<open>setattr(expense, field, value)\<close> on a column that is \<^verbatim>\<open>nullable=False\<close>
  (\<open>required\<close>) and on a nullable one. Assigning None to a required column yields no
  storable value: the result is None.
\<close>

definition set_required :: "'a option field \<Rightarrow> 'a \<Rightarrow> 'a option" where
  "set_required f old = (case f of Unset \<Rightarrow> Some old | Given v \<Rightarrow> v)"

definition set_nullable :: "'a option field \<Rightarrow> 'a option \<Rightarrow> 'a option" where
  "set_nullable f old = (case f of Unset \<Rightarrow> old | Given v \<Rightarrow> v)"

text \<open>
  The loop over \<^verbatim>\<open>update_data.items()\<close>, then \<^verbatim>\<open>expense.updated_at = datetime.utcnow()\<close>.
  The result is None when a required column was assigned None.
\<close>

definition apply_update :: "datetime \<Rightarrow> ExpenseUpdate \<Rightarrow> Expense \<Rightarrow> Expense option" where
  "apply_update now expense_update expense =
     (case (set_required (p_title expense_update) (e_title expense),
            set_required (p_amount expense_update) (e_amount expense),
            set_required (p_category expense_update) (e_category expense)) of
        (Some t, Some a, Some c) \<Rightarrow>
          Some (expense\<lparr> e_title := t, e_amount := a, e_category := c,
                 e_description := set_nullable (p_description expense_update) (e_description expense),
                 e_date := set_nullable (p_date expense_update) (e_date expense),
                 e_updated_at := now \<rparr>)
      | _ \<Rightarrow> None)"

text \<open>
  \<^verbatim>\<open>db.commit()\<close> writes the changed row back under its primary key;
  \<^verbatim>\<open>db.refresh(expense)\<close> reads it again.
\<close>

definition update_expense ::
  "datetime \<Rightarrow> int \<Rightarrow> ExpenseUpdate \<Rightarrow> User \<Rightarrow> database \<Rightarrow> error + (database \<times> Expense)" where
  "update_expense now expense_id expense_update current_user db =
     (case owned_expense expense_id current_user db of
        None \<Rightarrow> Inl (HTTPException 404 ''Expense not found'')
      | Some expense \<Rightarrow>
          (case apply_update now expense_update expense of
             None \<Rightarrow> Inl IntegrityError
           | Some expense' \<Rightarrow>
               Inr (db\<lparr> expenses :=
                      map (\<lambda>e. if e_id e = e_id expense then expense' else e) (expenses db) \<rparr>,
                    expense')))"

text \<open>
  SQL comparisons of the nullable column \<^verbatim>\<open>date\<close>: a comparison with NULL is not true,
  so the row is filtered out.
\<close>

definition date_ge :: "datetime option \<Rightarrow> datetime \<Rightarrow> bool" where
  "date_ge d s = (case d of None \<Rightarrow> False | Some x \<Rightarrow> s \<le> x)"

definition date_le :: "datetime option \<Rightarrow> datetime \<Rightarrow> bool" where
  "date_le d s = (case d of None \<Rightarrow> False | Some x \<Rightarrow> x \<le> s)"

text \<open>
  \<^verbatim>\<open>order_by(Expense.date.desc())\<close>: later dates first, NULL (the least value in
  MySQL) last. Rows with equal dates keep the order of the table.
\<close>

definition later :: "datetime option \<Rightarrow> datetime option \<Rightarrow> bool" where
  "later a b = (case a of None \<Rightarrow> False | Some x \<Rightarrow> (case b of None \<Rightarrow> True | Some y \<Rightarrow> y < x))"

fun insert_desc :: "Expense \<Rightarrow> Expense list \<Rightarrow> Expense list" where
  "insert_desc e [] = [e]"
| "insert_desc e (x # xs) =
     (if later (e_date e) (e_date x) then e # x # xs
      else if later (e_date x) (e_date e) then x # insert_desc e xs
      else e # x # xs)"

definition order_by_date_desc :: "Expense list \<Rightarrow> Expense list" where
  "order_by_date_desc xs = foldr insert_desc xs []"

text \<open>
  \<^verbatim>\<open>get_expenses\<close>. The bounds of \<^verbatim>\<open>Query(0, ge=0)\<close> and
  \<^verbatim>\<open>Query(100, ge=1, le=100)\<close> are checked before the body runs. An
  enum member and a \<^verbatim>\<open>datetime\<close> are always truthy, so each \<^verbatim>\<open>if\<close> tests for None.
  \<^verbatim>\<open>offset(skip).limit(limit)\<close> drops \<open>skip\<close> rows and keeps \<open>limit\<close>.
\<close>

definition get_expenses ::
  "int \<Rightarrow> int \<Rightarrow> ExpenseCategory option \<Rightarrow> datetime option \<Rightarrow> datetime option \<Rightarrow>
   User \<Rightarrow> database \<Rightarrow> error + Expense list" where
  "get_expenses skip limit category start_date end_date current_user db =
     (if skip < 0 \<or> limit < 1 \<or> 100 < limit
      then Inl RequestValidationError
      else
        let query = filter (\<lambda>e. e_user_id e = u_id current_user) (expenses db);
            query = (case category of None \<Rightarrow> query
                     | Some c \<Rightarrow> filter (\<lambda>e. e_category e = c) query);
            query = (case start_date of None \<Rightarrow> query
                     | Some s \<Rightarrow> filter (\<lambda>e. date_ge (e_date e) s) query);
            query = (case end_date of None \<Rightarrow> query
                     | Some t \<Rightarrow> filter (\<lambda>e. date_le (e_date e) t) query)
        in Inr (take (nat limit) (drop (nat skip) (order_by_date_desc query))))"

text \<open>\<^verbatim>\<open>get_week_expenses\<close> and \<^verbatim>\<open>get_month_expenses\<close>; \<open>now\<close> is \<^verbatim>\<open>datetime.utcnow()\<close>.\<close>

definition get_week_expenses :: "datetime \<Rightarrow> User \<Rightarrow> database \<Rightarrow> Expense list" where
  "get_week_expenses now current_user db =
     (let week_ago = now - timedelta_days 7
      in order_by_date_desc
           (filter (\<lambda>e. e_user_id e = u_id current_user \<and> date_ge (e_date e) week_ago)
              (expenses db)))"

definition get_month_expenses :: "datetime \<Rightarrow> User \<Rightarrow> database \<Rightarrow> Expense list" where
  "get_month_expenses now current_user db =
     (let month_ago = now - timedelta_days 30
      in order_by_date_desc
           (filter (\<lambda>e. e_user_id e = u_id current_user \<and> date_ge (e_date e) month_ago)
              (expenses db)))"

text \<open>
  The listing as section 4.5 of the specification words it, without the page: the
  owner's expenses that satisfy every filter given, ordered by expense date descending.
\<close>

definition spec_list ::
  "ExpenseCategory option \<Rightarrow> datetime option \<Rightarrow> datetime option \<Rightarrow> User \<Rightarrow> database \<Rightarrow>
   Expense list" where
  "spec_list category start_date end_date owner db =
     order_by_date_desc
       (filter (\<lambda>e. e_user_id e = u_id owner
                  \<and> (case category of None \<Rightarrow> True | Some c \<Rightarrow> e_category e = c)
                  \<and> (case start_date of None \<Rightarrow> True | Some s \<Rightarrow> date_ge (e_date e) s)
                  \<and> (case end_date of None \<Rightarrow> True | Some t \<Rightarrow> date_le (e_date e) t))
          (expenses db))"

section \<open>Sample data\<close>

text \<open>
  Two users and the expenses of section 8 of the specification: A ($10, food, day 1),
  B ($20, food, day 2) and C ($5, transport, day 3) of the first user, and one expense of
  the second user.
\<close>

definition alice :: User where
  "alice = \<lparr> u_id = 1, u_email = ''alice@example.com'', u_username = ''alice'',
     u_hashed_password = Bcrypt 11 ''wonderland'', u_full_name = Some ''Alice'',
     u_is_active = 1, u_created_at = 0 \<rparr>"

definition bob :: User where
  "bob = \<lparr> u_id = 2, u_email = ''bob@example.com'', u_username = ''bob'',
     u_hashed_password = Bcrypt 12 ''builder'', u_full_name = None,
     u_is_active = 1, u_created_at = 0 \<rparr>"

definition expense_A :: Expense where
  "expense_A = \<lparr> e_id = 1, e_title = ''A'', e_amount = 10, e_category = FOOD,
     e_description = None, e_date = Some 86400, e_created_at = 86400, e_updated_at = 86400,
     e_user_id = 1, e_ai_confidence = None, e_ai_suggested_category = None \<rparr>"

definition expense_B :: Expense where
  "expense_B = \<lparr> e_id = 2, e_title = ''B'', e_amount = 20, e_category = FOOD,
     e_description = None, e_date = Some 172800, e_created_at = 172800, e_updated_at = 172800,
     e_user_id = 1, e_ai_confidence = None, e_ai_suggested_category = None \<rparr>"

definition expense_C :: Expense where
  "expense_C = \<lparr> e_id = 3, e_title = ''C'', e_amount = 5, e_category = TRANSPORT,
     e_description = None, e_date = Some 259200, e_created_at = 259200, e_updated_at = 259200,
     e_user_id = 1, e_ai_confidence = None, e_ai_suggested_category = None \<rparr>"

definition expense_D :: Expense where
  "expense_D = \<lparr> e_id = 4, e_title = ''D'', e_amount = 7, e_category = SHOPPING,
     e_description = Some ''gift'', e_date = Some 172800, e_created_at = 172800,
     e_updated_at = 172800, e_user_id = 2, e_ai_confidence = None,
     e_ai_suggested_category = None \<rparr>"

definition sample_db :: database where
  "sample_db = \<lparr> users = [alice, bob],
     expenses = [expense_A, expense_B, expense_C, expense_D], users_next_id = 3 \<rparr>"

section \<open>Statistics\<close>



















section \<open>Tokens\<close>

text \<open>
  \<^verbatim>\<open>app/core/security.py\<close>. The three settings are read from the environment when the
  module is loaded, each with a default.
\<close>

record environ =
  env_SECRET_KEY :: "string option"
  env_ALGORITHM :: "string option"
  env_ACCESS_TOKEN_EXPIRE_MINUTES :: "int option"

record settings =
  SECRET_KEY :: string
  ALGORITHM :: string
  ACCESS_TOKEN_EXPIRE_MINUTES :: int

definition load_settings :: "environ \<Rightarrow> settings" where
  "load_settings env =
     \<lparr> SECRET_KEY = (case env_SECRET_KEY env of
                       None \<Rightarrow> ''your-secret-key-here-change-this-in-production''
                     | Some k \<Rightarrow> k),
       ALGORITHM = (case env_ALGORITHM env of None \<Rightarrow> ''HS256'' | Some a \<Rightarrow> a),
       ACCESS_TOKEN_EXPIRE_MINUTES =
         (case env_ACCESS_TOKEN_EXPIRE_MINUTES env of None \<Rightarrow> 30 | Some m \<Rightarrow> m) \<rparr>"

text \<open>
  \<^verbatim>\<open>python-jose\<close> is an external library. Its signatures are modelled symbolically: a
  token string is either the signature, under an algorithm and a key, of a payload, or a
  string that is no token at all (malformed, or its payload no JSON object); a signature
  verifies under the key it was made with and no other. A payload is a JSON object: a map
  from claim names to JSON values, which are what \<^verbatim>\<open>json.loads\<close> returns. A \<^verbatim>\<open>datetime\<close>
  is encoded as its integer time stamp.
\<close>

datatype json =
  JNull
| JBool bool
| JInt int
| JFloat rat
| JNaN
| JInfinity bool
| JStr string
| JList "json list"
| JObj "(string \<times> json) list"

type_synonym claims = "string \<rightharpoonup> json"

datatype token = Signed string string claims | Garbage string

text \<open>
  The exceptions that can leave \<^verbatim>\<open>jwt.decode\<close>: \<^verbatim>\<open>JWTError\<close> with its subclasses
  \<^verbatim>\<open>JWTClaimsError\<close> and \<^verbatim>\<open>ExpiredSignatureError\<close>, and the two that Python's \<^verbatim>\<open>int()\<close>
  raises besides \<^verbatim>\<open>ValueError\<close>.
\<close>

datatype exn = JWTError | TypeError | OverflowError

definition jwt_encode :: "claims \<Rightarrow> string \<Rightarrow> string \<Rightarrow> token" where
  "jwt_encode payload key algorithm = Signed algorithm key payload"

text \<open>
  The library reads the claims \<^verbatim>\<open>iat\<close>, \<^verbatim>\<open>nbf\<close> and \<^verbatim>\<open>exp\<close> with
  \<^verbatim>\<open>try: int(claims[...]) except ValueError: raise JWTClaimsError\<close>. Python's \<^verbatim>\<open>int()\<close>
  keeps an integer, maps a boolean to 0 or 1, truncates a finite float towards zero,
  raises \<^verbatim>\<open>ValueError\<close> for NaN and for a string that is no integer literal,
  \<^verbatim>\<open>OverflowError\<close> for an infinity and \<^verbatim>\<open>TypeError\<close> for null, a list or an object.
  Which strings are integer literals, and of what value, is the argument \<open>parse\<close>
  (None for \<^verbatim>\<open>ValueError\<close>).
\<close>

definition claim_int :: "(string \<Rightarrow> int option) \<Rightarrow> json \<Rightarrow> exn + int" where
  "claim_int parse v =
     (case v of
        JInt n \<Rightarrow> Inr n
      | JBool b \<Rightarrow> Inr (if b then 1 else 0)
      | JFloat r \<Rightarrow> Inr (if 0 \<le> r then \<lfloor>r\<rfloor> else \<lceil>r\<rceil>)
      | JNaN \<Rightarrow> Inl JWTError
      | JInfinity b \<Rightarrow> Inl OverflowError
      | JStr s \<Rightarrow> (case parse s of Some n \<Rightarrow> Inr n | None \<Rightarrow> Inl JWTError)
      | JNull \<Rightarrow> Inl TypeError
      | JList l \<Rightarrow> Inl TypeError
      | JObj d \<Rightarrow> Inl TypeError)"

text \<open>
  The checks of \<^verbatim>\<open>_validate_claims\<close> as \<^verbatim>\<open>jwt.decode\<close> runs them when it is called
  without options, audience, issuer, subject and access token, each with the exception it
  raises, if any. \<open>now\<close> is the current time in seconds.
\<close>

definition validate_iat :: "(string \<Rightarrow> int option) \<Rightarrow> claims \<Rightarrow> exn option" where
  "validate_iat parse c =
     (case c ''iat'' of None \<Rightarrow> None
      | Some v \<Rightarrow> (case claim_int parse v of Inl e \<Rightarrow> Some e | Inr iat \<Rightarrow> None))"

definition validate_nbf :: "(string \<Rightarrow> int option) \<Rightarrow> datetime \<Rightarrow> claims \<Rightarrow> exn option" where
  "validate_nbf parse now c =
     (case c ''nbf'' of None \<Rightarrow> None
      | Some v \<Rightarrow> (case claim_int parse v of Inl e \<Rightarrow> Some e
                   | Inr nbf \<Rightarrow> if now < nbf then Some JWTError else None))"

definition validate_exp :: "(string \<Rightarrow> int option) \<Rightarrow> datetime \<Rightarrow> claims \<Rightarrow> exn option" where
  "validate_exp parse now c =
     (case c ''exp'' of None \<Rightarrow> None
      | Some v \<Rightarrow> (case claim_int parse v of Inl e \<Rightarrow> Some e
                   | Inr expires \<Rightarrow> if expires < now then Some JWTError else None))"

text \<open>
  No audience is passed, so a token that has an \<^verbatim>\<open>aud\<close> claim, of whatever form, is
  refused; likewise one with an \<^verbatim>\<open>at_hash\<close> claim, as no access token is passed. No
  issuer is passed, so \<^verbatim>\<open>iss\<close> is not looked at.
\<close>

definition validate_aud :: "claims \<Rightarrow> exn option" where
  "validate_aud c = (if c ''aud'' = None then None else Some JWTError)"

definition validate_sub :: "claims \<Rightarrow> exn option" where
  "validate_sub c = (case c ''sub'' of None \<Rightarrow> None | Some (JStr s) \<Rightarrow> None
                      | Some v \<Rightarrow> Some JWTError)"

definition validate_jti :: "claims \<Rightarrow> exn option" where
  "validate_jti c = (case c ''jti'' of None \<Rightarrow> None | Some (JStr s) \<Rightarrow> None
                      | Some v \<Rightarrow> Some JWTError)"

definition validate_at_hash :: "claims \<Rightarrow> exn option" where
  "validate_at_hash c = (if c ''at_hash'' = None then None else Some JWTError)"

text \<open>The checks run in this order; the first exception leaves the function.\<close>

fun first_raised :: "exn option list \<Rightarrow> exn option" where
  "first_raised [] = None"
| "first_raised (None # rs) = first_raised rs"
| "first_raised (Some e # rs) = Some e"

definition validate_claims :: "(string \<Rightarrow> int option) \<Rightarrow> datetime \<Rightarrow> claims \<Rightarrow> exn option" where
  "validate_claims parse now c =
     first_raised [validate_iat parse c, validate_nbf parse now c, validate_exp parse now c,
       validate_aud c, validate_sub c, validate_jti c, validate_at_hash c]"

text \<open>
  \<^verbatim>\<open>jwt.decode(token, key, algorithms=...)\<close>: \<^verbatim>\<open>JWTError\<close> when the string is no token,
  the algorithm is not among those allowed or the signature does not verify; then the
  checks of the claims; then the payload.
\<close>

definition jwt_decode ::
  "(string \<Rightarrow> int option) \<Rightarrow> datetime \<Rightarrow> token \<Rightarrow> string \<Rightarrow> string list \<Rightarrow> exn + claims" where
  "jwt_decode parse now tok key algorithms =
     (case tok of
        Garbage s \<Rightarrow> Inl JWTError
      | Signed alg k payload \<Rightarrow>
          if alg \<notin> set algorithms then Inl JWTError
          else if k \<noteq> key then Inl JWTError
          else (case validate_claims parse now payload of
                  Some e \<Rightarrow> Inl e
                | None \<Rightarrow> Inr payload))"

text \<open>
  \<^verbatim>\<open>create_access_token\<close>; \<open>now\<close> is \<^verbatim>\<open>datetime.utcnow()\<close>. A \<^verbatim>\<open>timedelta\<close> of zero is
  falsy, so \<^verbatim>\<open>if expires_delta\<close> takes the default for it as for None.
\<close>

definition create_access_token :: "settings \<Rightarrow> datetime \<Rightarrow> claims \<Rightarrow> int option \<Rightarrow> token" where
  "create_access_token cfg now data expires_delta =
     (let to_encode = data;
          expire = (case expires_delta of
                      Some d \<Rightarrow> if d \<noteq> 0 then now + d
                                else now + timedelta_minutes (ACCESS_TOKEN_EXPIRE_MINUTES cfg)
                    | None \<Rightarrow> now + timedelta_minutes (ACCESS_TOKEN_EXPIRE_MINUTES cfg));
          to_encode = to_encode(''exp'' \<mapsto> JInt expire)
      in jwt_encode to_encode (SECRET_KEY cfg) (ALGORITHM cfg))"






section \<open>The User Registry\<close>

text \<open>
  \<^verbatim>\<open>app/routers/auth.py\<close> with the schemas of \<^verbatim>\<open>app/schemas/schemas.py\<close>. The
  \<^verbatim>\<open>response_model\<close> of the routes is \<^verbatim>\<open>UserResponse\<close>, built from the attributes of the
  row the handler returns.
\<close>

record UserCreate =
  c_email :: string
  c_username :: string
  c_full_name :: "string option"
  c_password :: string

record UserResponse =
  r_email :: string
  r_username :: string
  r_full_name :: "string option"
  r_id :: int
  r_is_active :: int
  r_created_at :: datetime

definition UserResponse_of :: "User \<Rightarrow> UserResponse" where
  "UserResponse_of u = \<lparr> r_email = u_email u, r_username = u_username u,
     r_full_name = u_full_name u, r_id = u_id u, r_is_active = u_is_active u,
     r_created_at = u_created_at u \<rparr>"

text \<open>
  \<^verbatim>\<open>register\<close>. The salt \<open>s\<close> is the one the hash draws. The INSERT gives the row the
  next id of the table and the column defaults \<^verbatim>\<open>is_active = 1\<close> and
  \<^verbatim>\<open>created_at = datetime.utcnow()\<close>; \<^verbatim>\<open>db.refresh\<close> reads them back.
\<close>

definition register ::
  "nat \<Rightarrow> datetime \<Rightarrow> UserCreate \<Rightarrow> database \<Rightarrow> error + (database \<times> User)" where
  "register s now user_data db =
     (let existing_email = find (\<lambda>u. u_email u = c_email user_data) (users db)
      in if existing_email \<noteq> None
         then Inl (HTTPException 400 ''Email already registered'')
         else
           let existing_username = find (\<lambda>u. u_username u = c_username user_data) (users db)
           in if existing_username \<noteq> None
              then Inl (HTTPException 400 ''Username already taken'')
              else
                let hashed_password = get_password_hash s (c_password user_data);
                    new_user = \<lparr> u_id = users_next_id db, u_email = c_email user_data,
                      u_username = c_username user_data, u_hashed_password = hashed_password,
                      u_full_name = c_full_name user_data, u_is_active = 1,
                      u_created_at = now \<rparr>
                in Inr (db\<lparr> users := users db @ [new_user],
                            users_next_id := users_next_id db + 1 \<rparr>, new_user))"

text \<open>
  The route \<^verbatim>\<open>POST /api/auth/register\<close>: \<^verbatim>\<open>status_code=201\<close> and
  \<^verbatim>\<open>response_model=UserResponse\<close> of the decorator applied to the handler's result.
\<close>

definition register_route ::
  "nat \<Rightarrow> datetime \<Rightarrow> UserCreate \<Rightarrow> database \<Rightarrow> error + (database \<times> nat \<times> UserResponse)" where
  "register_route s now user_data db =
     (case register s now user_data db of
        Inl e \<Rightarrow> Inl e
      | Inr (db', new_user) \<Rightarrow> Inr (db', 201, UserResponse_of new_user))"

record OAuth2PasswordRequestForm =
  form_username :: string
  form_password :: string

record Token =
  access_token :: token
  token_type :: string

text \<open>
  \<^verbatim>\<open>login\<close>. \<^verbatim>\<open>is_active\<close> is an integer column: 0 is falsy.
\<close>

definition login ::
  "settings \<Rightarrow> datetime \<Rightarrow> OAuth2PasswordRequestForm \<Rightarrow> database \<Rightarrow> error + Token" where
  "login cfg now form_data db =
     (let user = find (\<lambda>u. u_username u = form_username form_data) (users db);
          user = (if user = None
                  then find (\<lambda>u. u_email u = form_username form_data) (users db)
                  else user)
      in case user of
           None \<Rightarrow> Inl (HTTPException 401 ''Incorrect username/email or password'')
         | Some u \<Rightarrow>
             if \<not> verify_password (form_password form_data) (u_hashed_password u)
             then Inl (HTTPException 401 ''Incorrect username/email or password'')
             else if u_is_active u = 0
             then Inl (HTTPException 400 ''Inactive user account'')
             else
               let access_token_expires = timedelta_minutes (ACCESS_TOKEN_EXPIRE_MINUTES cfg);
                   access_token = create_access_token cfg now [''sub'' \<mapsto> JStr (u_username u)]
                                    (Some access_token_expires)
               in Inr \<lparr> access_token = access_token, token_type = ''bearer'' \<rparr>)"

text \<open>
  \<^verbatim>\<open>UserUpdate\<close>: every field is optional. The handler tests each field for truth, so a
  field is applied when it is given and not the empty string.
\<close>

record UserUpdate =
  up_email :: "string option"
  up_username :: "string option"
  up_full_name :: "string option"
  up_password :: "string option"

definition truthy :: "string option \<Rightarrow> bool" where
  "truthy f = (case f of None \<Rightarrow> False | Some v \<Rightarrow> v \<noteq> [])"

text \<open>
  \<^verbatim>\<open>update_profile\<close>. \<open>current_user\<close> is the row the token resolved to; the commit
  writes it back under its id.
\<close>

definition update_profile ::
  "nat \<Rightarrow> UserUpdate \<Rightarrow> User \<Rightarrow> database \<Rightarrow> error + (database \<times> User)" where
  "update_profile s user_update current_user db =
     (if truthy (up_email user_update) \<and> up_email user_update \<noteq> Some (u_email current_user)
         \<and> find (\<lambda>u. Some (u_email u) = up_email user_update) (users db) \<noteq> None
      then Inl (HTTPException 400 ''Email already in use'')
      else if truthy (up_username user_update)
         \<and> up_username user_update \<noteq> Some (u_username current_user)
         \<and> find (\<lambda>u. Some (u_username u) = up_username user_update) (users db) \<noteq> None
      then Inl (HTTPException 400 ''Username already taken'')
      else
        let current_user = (case up_email user_update of
              Some v \<Rightarrow> if v \<noteq> [] then current_user\<lparr> u_email := v \<rparr> else current_user
            | None \<Rightarrow> current_user);
            current_user = (case up_username user_update of
              Some v \<Rightarrow> if v \<noteq> [] then current_user\<lparr> u_username := v \<rparr> else current_user
            | None \<Rightarrow> current_user);
            current_user = (case up_full_name user_update of
              Some v \<Rightarrow> if v \<noteq> [] then current_user\<lparr> u_full_name := Some v \<rparr> else current_user
            | None \<Rightarrow> current_user);
            current_user = (case up_password user_update of
              Some v \<Rightarrow> if v \<noteq> []
                then current_user\<lparr> u_hashed_password := get_password_hash s v \<rparr>
                else current_user
            | None \<Rightarrow> current_user)
        in Inr (db\<lparr> users := map (\<lambda>u. if u_id u = u_id current_user then current_user else u)
                               (users db) \<rparr>,
                current_user))"

text \<open>A user whose account is inactive, for the sample data of the registry.\<close>

definition erin :: User where
  "erin = \<lparr> u_id = 5, u_email = ''erin@example.com'', u_username = ''erin'',
     u_hashed_password = Bcrypt 15 ''sleeper'', u_full_name = None,
     u_is_active = 0, u_created_at = 0 \<rparr>"

definition registry_db :: database where
  "registry_db = \<lparr> users = [alice, bob, erin], expenses = [], users_next_id = 6 \<rparr>"

definition default_settings :: settings where
  "default_settings = load_settings \<lparr> env_SECRET_KEY = None, env_ALGORITHM = None,
     env_ACCESS_TOKEN_EXPIRE_MINUTES = None \<rparr>"

text \<open>
  The row after the four conditional assignments of \<^verbatim>\<open>update_profile\<close>, as one record
  update; the statements about the handler are written with it.
\<close>

definition profile_after :: "nat \<Rightarrow> UserUpdate \<Rightarrow> User \<Rightarrow> User" where
  "profile_after s p cu = cu\<lparr>
     u_email := (case up_email p of Some v \<Rightarrow> if v \<noteq> [] then v else u_email cu
                 | None \<Rightarrow> u_email cu),
     u_username := (case up_username p of Some v \<Rightarrow> if v \<noteq> [] then v else u_username cu
                    | None \<Rightarrow> u_username cu),
     u_full_name := (case up_full_name p of Some v \<Rightarrow> if v \<noteq> [] then Some v else u_full_name cu
                     | None \<Rightarrow> u_full_name cu),
     u_hashed_password := (case up_password p of
                             Some v \<Rightarrow> if v \<noteq> [] then get_password_hash s v
                                       else u_hashed_password cu
                           | None \<Rightarrow> u_hashed_password cu) \<rparr>"

text \<open>A patch that sets the password alone.\<close>

definition password_patch :: UserUpdate where
  "password_patch = \<lparr> up_email = None, up_username = None, up_full_name = None,
     up_password = Some ''newsecret'' \<rparr>"

text \<open>
  An account whose username is the first user's email, and the registry after its
  registration.
\<close>

definition mallory_data :: UserCreate where
  "mallory_data = \<lparr> c_email = ''mallory@example.com'', c_username = ''alice@example.com'',
     c_full_name = None, c_password = ''hunter22'' \<rparr>"

definition mallory :: User where
  "mallory = \<lparr> u_id = 6, u_email = ''mallory@example.com'',
     u_username = ''alice@example.com'', u_hashed_password = Bcrypt 9 ''hunter22'',
     u_full_name = None, u_is_active = 1, u_created_at = 60 \<rparr>"

definition collision_db :: database where
  "collision_db = \<lparr> users = [alice, bob, erin, mallory], expenses = [], users_next_id = 7 \<rparr>"




section \<open>Properties\<close>

lemma app_paths_auth:
  "r \<in> set app \<Longrightarrow> r_path r = [Lit ''''] \<or> r_path r = [Lit ''health''] \<or>
     (\<exists>p. r_path r = [Lit ''api'', Lit ''auth'', p])"
  by (auto simp: app_def include_router_def auth_router_def)

text \<open>
  C1. The expense router, had it been registered, would serve each of the eight Expense
  Ledger requests with its handler. The application as written registers the auth router
  only: it dispatches none of the eight requests, and no request at all whose path lies
  under \<^verbatim>\<open>/api/expenses\<close>.
\<close>

theorem expense_routes_not_registered:
  "list_all (\<lambda>(m, p, h). dispatch (include_router [] expense_router) m p = Some h
       \<and> dispatch app m p = None) expense_requests
   \<and> (\<forall>m rest. dispatch app m (''api'' # ''expenses'' # rest) = None)"
proof -
  have sample: "list_all (\<lambda>(m, p, h). dispatch (include_router [] expense_router) m p = Some h
       \<and> dispatch app m p = None) expense_requests"
    by (simp add: expense_requests_def dispatch_def app_def include_router_def
        expense_router_def auth_router_def)
  have none: "dispatch app m (''api'' # ''expenses'' # rest) = None" for m rest
    by (simp add: dispatch_def app_def include_router_def auth_router_def)
  show ?thesis
    using sample none by simp
qed

subsection \<open>Ownership-gated lookup\<close>

lemma owned_expense_None:
  "owned_expense i cu db = None \<longleftrightarrow>
     \<not> (\<exists>e \<in> set (expenses db). e_id e = i \<and> e_user_id e = u_id cu)"
  by (auto simp: owned_expense_def find_None_iff)

lemma owned_expense_SomeD:
  "owned_expense i cu db = Some e \<Longrightarrow>
     e \<in> set (expenses db) \<and> e_id e = i \<and> e_user_id e = u_id cu"
  by (auto simp: owned_expense_def find_Some_iff)

text \<open>
  C3. \<^verbatim>\<open>get_expense\<close>, \<^verbatim>\<open>update_expense\<close> and \<^verbatim>\<open>delete_expense\<close> answer 404
  ``Expense not found'' exactly when the table has no row with the given id that belongs
  to the caller: a row with that id of another user changes nothing, and no handler
  answers 403 (Forbidden).
\<close>

theorem not_found_iff_not_owned:
  "(get_expense i cu db = Inl (HTTPException 404 ''Expense not found'')
      \<longleftrightarrow> \<not> (\<exists>e \<in> set (expenses db). e_id e = i \<and> e_user_id e = u_id cu))
   \<and> (update_expense now i p cu db = Inl (HTTPException 404 ''Expense not found'')
      \<longleftrightarrow> \<not> (\<exists>e \<in> set (expenses db). e_id e = i \<and> e_user_id e = u_id cu))
   \<and> (delete_expense i cu db = Inl (HTTPException 404 ''Expense not found'')
      \<longleftrightarrow> \<not> (\<exists>e \<in> set (expenses db). e_id e = i \<and> e_user_id e = u_id cu))
   \<and> get_expense i cu db \<noteq> Inl (HTTPException 403 d)
   \<and> update_expense now i p cu db \<noteq> Inl (HTTPException 403 d)
   \<and> delete_expense i cu db \<noteq> Inl (HTTPException 403 d)"
proof -
  have g: "(get_expense i cu db = Inl (HTTPException 404 ''Expense not found''))
      = (owned_expense i cu db = None)"
    by (simp add: get_expense_def split: option.splits)
  have u: "(update_expense now i p cu db = Inl (HTTPException 404 ''Expense not found''))
      = (owned_expense i cu db = None)"
    by (simp add: update_expense_def split: option.splits)
  have d: "(delete_expense i cu db = Inl (HTTPException 404 ''Expense not found''))
      = (owned_expense i cu db = None)"
    by (simp add: delete_expense_def split: option.splits)
  have g3: "get_expense i cu db \<noteq> Inl (HTTPException 403 d)"
    by (simp add: get_expense_def split: option.splits)
  have u3: "update_expense now i p cu db \<noteq> Inl (HTTPException 403 d)"
    by (simp add: update_expense_def split: option.splits)
  have d3: "delete_expense i cu db \<noteq> Inl (HTTPException 403 d)"
    by (simp add: delete_expense_def split: option.splits)
  show ?thesis
    unfolding g u d using g3 u3 d3 by (simp add: owned_expense_None)
qed

text \<open>
  On the sample data, expense 4 belongs to the second user and expense 9 does not exist:
  the first user gets the same 404 for both, from all three handlers.
\<close>

theorem not_found_iff_not_owned_witness:
  "\<not> (\<exists>e \<in> set (expenses sample_db). e_id e = 4 \<and> e_user_id e = u_id alice)
   \<and> get_expense 4 alice sample_db = Inl (HTTPException 404 ''Expense not found'')
   \<and> update_expense 500 4 \<lparr> p_title = Given (Some ''mine''), p_amount = Unset,
        p_category = Unset, p_description = Unset, p_date = Unset \<rparr> alice sample_db
      = Inl (HTTPException 404 ''Expense not found'')
   \<and> delete_expense 4 alice sample_db = Inl (HTTPException 404 ''Expense not found'')
   \<and> get_expense 9 alice sample_db = get_expense 4 alice sample_db
   \<and> delete_expense 9 alice sample_db = delete_expense 4 alice sample_db
   \<and> get_expense 4 bob sample_db = Inr expense_D"
proof -
  have no4: "\<not> (\<exists>e \<in> set (expenses sample_db). e_id e = 4 \<and> e_user_id e = u_id alice)"
    by (simp add: sample_db_def alice_def expense_A_def expense_B_def expense_C_def
        expense_D_def)
  have no9: "\<not> (\<exists>e \<in> set (expenses sample_db). e_id e = 9 \<and> e_user_id e = u_id alice)"
    by (simp add: sample_db_def alice_def expense_A_def expense_B_def expense_C_def
        expense_D_def)
  have bob4: "get_expense 4 bob sample_db = Inr expense_D"
    by (simp add: get_expense_def owned_expense_def sample_db_def bob_def expense_A_def
        expense_B_def expense_C_def expense_D_def)
  show ?thesis
    using no4 no9 bob4
      not_found_iff_not_owned [of 4 alice sample_db 500 "\<lparr> p_title = Given (Some ''mine''),
        p_amount = Unset, p_category = Unset, p_description = Unset, p_date = Unset \<rparr>"]
      not_found_iff_not_owned [of 9 alice sample_db]
    by simp
qed

subsection \<open>Partial update of an expense\<close>

lemma find_owned_replace:
  "find (\<lambda>x. e_id x = i \<and> e_user_id x = u) xs = Some e \<Longrightarrow> e_id e' = i \<Longrightarrow>
   e_user_id e' = u \<Longrightarrow>
   find (\<lambda>x. e_id x = i \<and> e_user_id x = u) (map (\<lambda>x. if e_id x = i then e' else x) xs)
     = Some e'"
proof (induction xs)
  case Nil
  then show ?case by simp
next
  case (Cons x xs)
  show ?case
  proof (cases "e_id x = i")
    case True
    then show ?thesis using Cons.prems by simp
  next
    case False
    then show ?thesis using Cons by simp
  qed
qed

lemma apply_update_Some:
  assumes "p_title p \<noteq> Given None" "p_amount p \<noteq> Given None" "p_category p \<noteq> Given None"
  shows "apply_update now p e = Some (e\<lparr>
      e_title := (case p_title p of Given (Some t) \<Rightarrow> t | _ \<Rightarrow> e_title e),
      e_amount := (case p_amount p of Given (Some a) \<Rightarrow> a | _ \<Rightarrow> e_amount e),
      e_category := (case p_category p of Given (Some c) \<Rightarrow> c | _ \<Rightarrow> e_category e),
      e_description := (case p_description p of Unset \<Rightarrow> e_description e | Given v \<Rightarrow> v),
      e_date := (case p_date p of Unset \<Rightarrow> e_date e | Given v \<Rightarrow> v),
      e_updated_at := now \<rparr>)"
  using assms
  by (simp add: apply_update_def set_required_def set_nullable_def
      split: field.splits option.splits)

text \<open>
  C6, as amended. For an expense the caller owns and a patch that gives null for none of
  the required columns title, amount and category, \<^verbatim>\<open>update_expense\<close> succeeds; each of
  title, amount, category, description and date takes the patch's value when the patch sets
  it and keeps its previous value otherwise; \<open>updated_at\<close> is the current time whatever
  the patch holds, the empty patch included; id, owner, creation time and the AI columns
  are untouched; the row is stored under its id.
\<close>

theorem update_expense_applies_patch:
  assumes own: "owned_expense i cu db = Some e"
    and req: "p_title p \<noteq> Given None" "p_amount p \<noteq> Given None" "p_category p \<noteq> Given None"
  shows "\<exists>db' e'. update_expense now i p cu db = Inr (db', e')
    \<and> e_title e' = (case p_title p of Given (Some t) \<Rightarrow> t | _ \<Rightarrow> e_title e)
    \<and> e_amount e' = (case p_amount p of Given (Some a) \<Rightarrow> a | _ \<Rightarrow> e_amount e)
    \<and> e_category e' = (case p_category p of Given (Some c) \<Rightarrow> c | _ \<Rightarrow> e_category e)
    \<and> e_description e' = (case p_description p of Unset \<Rightarrow> e_description e | Given v \<Rightarrow> v)
    \<and> e_date e' = (case p_date p of Unset \<Rightarrow> e_date e | Given v \<Rightarrow> v)
    \<and> e_updated_at e' = now
    \<and> e_id e' = e_id e \<and> e_user_id e' = e_user_id e \<and> e_created_at e' = e_created_at e
    \<and> e_ai_confidence e' = e_ai_confidence e
    \<and> e_ai_suggested_category e' = e_ai_suggested_category e
    \<and> owned_expense i cu db' = Some e'
    \<and> users db' = users db
    \<and> expenses db' = map (\<lambda>x. if e_id x = i then e' else x) (expenses db)"
proof -
  define e' where "e' = e\<lparr>
      e_title := (case p_title p of Given (Some t) \<Rightarrow> t | _ \<Rightarrow> e_title e),
      e_amount := (case p_amount p of Given (Some a) \<Rightarrow> a | _ \<Rightarrow> e_amount e),
      e_category := (case p_category p of Given (Some c) \<Rightarrow> c | _ \<Rightarrow> e_category e),
      e_description := (case p_description p of Unset \<Rightarrow> e_description e | Given v \<Rightarrow> v),
      e_date := (case p_date p of Unset \<Rightarrow> e_date e | Given v \<Rightarrow> v),
      e_updated_at := now \<rparr>"
  define db' where
    "db' = db\<lparr> expenses := map (\<lambda>x. if e_id x = e_id e then e' else x) (expenses db) \<rparr>"
  have ap: "apply_update now p e = Some e'"
    unfolding e'_def using req by (rule apply_update_Some)
  have ids: "e_id e = i" "e_user_id e = u_id cu"
    using owned_expense_SomeD [OF own] by simp_all
  have upd: "update_expense now i p cu db = Inr (db', e')"
    by (simp add: update_expense_def own ap db'_def)
  have e'ids: "e_id e' = i" "e_user_id e' = u_id cu"
    using ids by (simp_all add: e'_def)
  have found: "owned_expense i cu db' = Some e'"
    using own e'ids unfolding owned_expense_def db'_def
    by (simp add: ids find_owned_replace)
  show ?thesis
    apply (rule exI [of _ db'], rule exI [of _ e'])
    apply (simp only: upd found simp_thms)
    apply (simp add: e'_def db'_def ids)
    done
qed

text \<open>
  On the sample data: the empty patch applied to expense B at time 999 changes
  \<open>updated_at\<close> alone; a patch that sets title, amount and description and gives null
  for the date changes these four and \<open>updated_at\<close>, and keeps the category.
\<close>

theorem update_expense_applies_patch_witness:
  "owned_expense 2 alice sample_db = Some expense_B
   \<and> update_expense 999 2 \<lparr> p_title = Unset, p_amount = Unset, p_category = Unset,
        p_description = Unset, p_date = Unset \<rparr> alice sample_db
      = Inr (sample_db\<lparr> expenses := [expense_A, expense_B\<lparr> e_updated_at := 999 \<rparr>,
                expense_C, expense_D] \<rparr>,
             expense_B\<lparr> e_updated_at := 999 \<rparr>)
   \<and> update_expense 999 2 \<lparr> p_title = Given (Some ''Lunch''), p_amount = Given (Some 12),
        p_category = Unset, p_description = Given (Some ''with Bob''), p_date = Given None \<rparr>
        alice sample_db
      = Inr (sample_db\<lparr> expenses := [expense_A,
                expense_B\<lparr> e_title := ''Lunch'', e_amount := 12,
                  e_description := Some ''with Bob'', e_date := None, e_updated_at := 999 \<rparr>,
                expense_C, expense_D] \<rparr>,
             expense_B\<lparr> e_title := ''Lunch'', e_amount := 12,
               e_description := Some ''with Bob'', e_date := None, e_updated_at := 999 \<rparr>)"
proof -
  let ?p = "\<lparr> p_title = Unset, p_amount = Unset, p_category = Unset,
        p_description = Unset, p_date = Unset \<rparr>"
  let ?q = "\<lparr> p_title = Given (Some ''Lunch''), p_amount = Given (Some 12),
        p_category = Unset, p_description = Given (Some ''with Bob''), p_date = Given None \<rparr>"
  have own: "owned_expense 2 alice sample_db = Some expense_B"
    by (simp add: owned_expense_def sample_db_def alice_def expense_A_def expense_B_def)
  have n: "users_next_id db' = users_next_id sample_db"
    if "update_expense 999 2 p alice sample_db = Inr (db', e')" for p db' e'
    using that by (simp add: update_expense_def own split: option.splits) auto
  obtain db' e' where r: "update_expense 999 2 ?p alice sample_db = Inr (db', e')"
    and f: "e_title e' = e_title expense_B" "e_amount e' = e_amount expense_B"
      "e_category e' = e_category expense_B" "e_description e' = e_description expense_B"
      "e_date e' = e_date expense_B" "e_updated_at e' = 999" "e_id e' = e_id expense_B"
      "e_user_id e' = e_user_id expense_B" "e_created_at e' = e_created_at expense_B"
      "e_ai_confidence e' = e_ai_confidence expense_B"
      "e_ai_suggested_category e' = e_ai_suggested_category expense_B"
    and u: "users db' = users sample_db"
    and x: "expenses db' = map (\<lambda>x. if e_id x = 2 then e' else x) (expenses sample_db)"
    using update_expense_applies_patch [OF own, of ?p 999] by auto
  have e': "e' = expense_B\<lparr> e_updated_at := 999 \<rparr>"
    using f by (cases e') (simp add: expense_B_def)
  have db': "db' = sample_db\<lparr> expenses := [expense_A, expense_B\<lparr> e_updated_at := 999 \<rparr>,
                expense_C, expense_D] \<rparr>"
    using u x n [OF r] unfolding e'
    by (cases db') (simp add: sample_db_def expense_A_def expense_B_def expense_C_def
        expense_D_def)
  obtain db'' e'' where r2: "update_expense 999 2 ?q alice sample_db = Inr (db'', e'')"
    and f2: "e_title e'' = ''Lunch''" "e_amount e'' = 12"
      "e_category e'' = e_category expense_B" "e_description e'' = Some ''with Bob''"
      "e_date e'' = None" "e_updated_at e'' = 999" "e_id e'' = e_id expense_B"
      "e_user_id e'' = e_user_id expense_B" "e_created_at e'' = e_created_at expense_B"
      "e_ai_confidence e'' = e_ai_confidence expense_B"
      "e_ai_suggested_category e'' = e_ai_suggested_category expense_B"
    and u2: "users db'' = users sample_db"
    and x2: "expenses db'' = map (\<lambda>x. if e_id x = 2 then e'' else x) (expenses sample_db)"
    using update_expense_applies_patch [OF own, of ?q 999] by auto
  have e'': "e'' = expense_B\<lparr> e_title := ''Lunch'', e_amount := 12,
               e_description := Some ''with Bob'', e_date := None, e_updated_at := 999 \<rparr>"
    using f2 by (cases e'') (simp add: expense_B_def)
  have db'': "db'' = sample_db\<lparr> expenses := [expense_A,
                expense_B\<lparr> e_title := ''Lunch'', e_amount := 12,
                  e_description := Some ''with Bob'', e_date := None, e_updated_at := 999 \<rparr>,
                expense_C, expense_D] \<rparr>"
    using u2 x2 n [OF r2] unfolding e''
    by (cases db'') (simp add: sample_db_def expense_A_def expense_B_def expense_C_def
        expense_D_def)
  show ?thesis using own r e' db' r2 e'' db'' by simp
qed

text \<open>
  The claim as stated, for every patch, fails on a patch that gives null for a required
  column: the body \<^verbatim>\<open>{"title": null, "amount": 12}\<close> passes the schema, the loop
  assigns None to \<^verbatim>\<open>title\<close>, and the commit is refused; no field is applied, the
  amount included, and \<open>updated_at\<close> is not refreshed.
\<close>

theorem update_expense_null_counterexample:
  "owned_expense 2 alice sample_db = Some expense_B
   \<and> update_expense 999 2 \<lparr> p_title = Given None, p_amount = Given (Some 12),
        p_category = Unset, p_description = Unset, p_date = Unset \<rparr> alice sample_db
      = Inl IntegrityError"
  by (simp add: update_expense_def owned_expense_def apply_update_def set_required_def
      sample_db_def alice_def expense_A_def expense_B_def)

subsection \<open>Listing and the recent views\<close>

lemma later_irrefl: "\<not> later a a"
  by (auto simp: later_def split: option.splits)

lemma later_trans: "later a b \<Longrightarrow> later b c \<Longrightarrow> later a c"
  by (auto simp: later_def split: option.splits)

lemma later_neg_trans: "\<not> later a b \<Longrightarrow> \<not> later b c \<Longrightarrow> \<not> later a c"
  by (auto simp: later_def split: option.splits)

lemma set_insert_desc: "set (insert_desc e xs) = insert e (set xs)"
  by (induction xs) auto

lemma sorted_insert_desc:
  "sorted_wrt (\<lambda>a b. \<not> later (e_date b) (e_date a)) xs \<Longrightarrow>
   sorted_wrt (\<lambda>a b. \<not> later (e_date b) (e_date a)) (insert_desc e xs)"
proof (induction xs)
  case Nil
  then show ?case by simp
next
  case (Cons x xs)
  show ?case
  proof (cases "later (e_date e) (e_date x)")
    case True
    have "\<not> later (e_date y) (e_date e)" if "y \<in> set xs" for y
    proof
      assume "later (e_date y) (e_date e)"
      then have "later (e_date y) (e_date x)" using True by (rule later_trans)
      moreover have "\<not> later (e_date y) (e_date x)" using Cons.prems that by simp
      ultimately show False by simp
    qed
    moreover have "\<not> later (e_date x) (e_date e)"
      using True later_trans later_irrefl by blast
    ultimately show ?thesis using True Cons.prems by simp
  next
    case False
    show ?thesis
    proof (cases "later (e_date x) (e_date e)")
      case True
      then show ?thesis using False Cons by (simp add: set_insert_desc)
    next
      case nl: False
      have "\<not> later (e_date y) (e_date e)" if "y \<in> set xs" for y
      proof -
        have "\<not> later (e_date y) (e_date x)" using Cons.prems that by simp
        then show ?thesis using nl by (rule later_neg_trans)
      qed
      then show ?thesis using False nl Cons.prems by simp
    qed
  qed
qed

lemma sorted_order_by_date_desc:
  "sorted_wrt (\<lambda>a b. \<not> later (e_date b) (e_date a)) (order_by_date_desc xs)"
  unfolding order_by_date_desc_def
  by (induction xs) (simp_all add: sorted_insert_desc)

lemma set_order_by_date_desc: "set (order_by_date_desc xs) = set xs"
  unfolding order_by_date_desc_def
  by (induction xs) (simp_all add: set_insert_desc)

text \<open>
  The handler \<^verbatim>\<open>get_expenses\<close> returns a page of the listing the specification
  describes: its chained filters are the conjunction of the filters given.
\<close>

lemma get_expenses_page:
  "0 \<le> skip \<Longrightarrow> 1 \<le> limit \<Longrightarrow> limit \<le> 100 \<Longrightarrow>
   get_expenses skip limit category start_date end_date cu db =
     Inr (take (nat limit) (drop (nat skip) (spec_list category start_date end_date cu db)))"
  by (cases category; cases start_date; cases end_date)
     (simp_all add: get_expenses_def spec_list_def Let_def conj_commute conj_left_commute)

lemma week_is_spec_list:
  "get_week_expenses now cu db = spec_list None (Some (now - timedelta_days 7)) None cu db"
  by (simp add: get_week_expenses_def spec_list_def Let_def)

lemma month_is_spec_list:
  "get_month_expenses now cu db = spec_list None (Some (now - timedelta_days 30)) None cu db"
  by (simp add: get_month_expenses_def spec_list_def Let_def)

text \<open>
  C7. The week view is the specification's listing with the start date seven days before
  now, no end date, no category and no page, and the month view the same with thirty
  days; both are ordered by expense date descending (no row is followed by one with a
  later date), and every row returned is the caller's and dated within the window. A call
  of \<^verbatim>\<open>get_expenses\<close> with the same start date returns the page \<open>skip\<close>, \<open>limit\<close> of the
  view.
\<close>

theorem recent_is_unpaginated_list:
  "get_week_expenses now cu db = spec_list None (Some (now - timedelta_days 7)) None cu db
   \<and> get_month_expenses now cu db = spec_list None (Some (now - timedelta_days 30)) None cu db
   \<and> sorted_wrt (\<lambda>a b. \<not> later (e_date b) (e_date a)) (get_week_expenses now cu db)
   \<and> sorted_wrt (\<lambda>a b. \<not> later (e_date b) (e_date a)) (get_month_expenses now cu db)
   \<and> set (get_week_expenses now cu db) =
       {e \<in> set (expenses db). e_user_id e = u_id cu \<and> date_ge (e_date e) (now - 7 * 86400)}
   \<and> set (get_month_expenses now cu db) =
       {e \<in> set (expenses db). e_user_id e = u_id cu \<and> date_ge (e_date e) (now - 30 * 86400)}
   \<and> (0 \<le> skip \<and> 1 \<le> limit \<and> limit \<le> 100 \<longrightarrow>
        get_expenses skip limit None (Some (now - timedelta_days 7)) None cu db
          = Inr (take (nat limit) (drop (nat skip) (get_week_expenses now cu db)))
      \<and> get_expenses skip limit None (Some (now - timedelta_days 30)) None cu db
          = Inr (take (nat limit) (drop (nat skip) (get_month_expenses now cu db))))"
proof -
  have s7: "sorted_wrt (\<lambda>a b. \<not> later (e_date b) (e_date a)) (get_week_expenses now cu db)"
    by (simp add: get_week_expenses_def Let_def sorted_order_by_date_desc)
  have s30: "sorted_wrt (\<lambda>a b. \<not> later (e_date b) (e_date a)) (get_month_expenses now cu db)"
    by (simp add: get_month_expenses_def Let_def sorted_order_by_date_desc)
  have m7: "set (get_week_expenses now cu db) =
       {e \<in> set (expenses db). e_user_id e = u_id cu \<and> date_ge (e_date e) (now - 7 * 86400)}"
    by (simp add: get_week_expenses_def Let_def set_order_by_date_desc timedelta_days_def)
  have m30: "set (get_month_expenses now cu db) =
       {e \<in> set (expenses db). e_user_id e = u_id cu \<and> date_ge (e_date e) (now - 30 * 86400)}"
    by (simp add: get_month_expenses_def Let_def set_order_by_date_desc timedelta_days_def)
  have p: "get_expenses skip limit None (Some s) None cu db
          = Inr (take (nat limit) (drop (nat skip) (spec_list None (Some s) None cu db)))"
    if "0 \<le> skip \<and> 1 \<le> limit \<and> limit \<le> 100" for s
    using that by (simp add: get_expenses_page)
  show ?thesis
    using s7 s30 m7 m30 p week_is_spec_list [of now cu db] month_is_spec_list [of now cu db]
    by simp
qed

text \<open>
  On the sample data, ten days after the epoch: the week view of the first user holds C
  alone, the month view C, B, A in that order, and the first page of \<^verbatim>\<open>get_expenses\<close>
  from thirty days back is the month view.
\<close>

theorem recent_is_unpaginated_list_witness:
  "(0::int) \<le> 0 \<and> (1::int) \<le> 100 \<and> (100::int) \<le> 100
   \<and> get_week_expenses 864000 alice sample_db = [expense_C]
   \<and> get_month_expenses 864000 alice sample_db = [expense_C, expense_B, expense_A]
   \<and> spec_list None (Some (864000 - timedelta_days 30)) None alice sample_db
       = [expense_C, expense_B, expense_A]
   \<and> get_expenses 0 100 None (Some (864000 - timedelta_days 30)) None alice sample_db
       = Inr [expense_C, expense_B, expense_A]
   \<and> get_expenses 1 1 None (Some (864000 - timedelta_days 30)) None alice sample_db
       = Inr [expense_B]"
proof -
  have w: "get_week_expenses 864000 alice sample_db = [expense_C]"
    by (simp add: get_week_expenses_def Let_def timedelta_days_def sample_db_def alice_def
        expense_A_def expense_B_def expense_C_def expense_D_def date_ge_def
        order_by_date_desc_def)
  have m: "get_month_expenses 864000 alice sample_db = [expense_C, expense_B, expense_A]"
    by (simp add: get_month_expenses_def Let_def timedelta_days_def sample_db_def alice_def
        expense_A_def expense_B_def expense_C_def expense_D_def date_ge_def
        order_by_date_desc_def later_def)
  show ?thesis
    using w m recent_is_unpaginated_list [of 864000 alice sample_db 0 100]
      recent_is_unpaginated_list [of 864000 alice sample_db 1 1]
    by simp
qed

subsection \<open>Rounding to binary64\<close>








subsection \<open>Statistics\<close>


































subsection \<open>Tokens\<close>


lemma create_access_token_Signed:
  "create_access_token cfg now data expires_delta =
     Signed (ALGORITHM cfg) (SECRET_KEY cfg)
       (data(''exp'' \<mapsto> JInt (now + (case expires_delta of
            Some d \<Rightarrow> if d \<noteq> 0 then d else 60 * ACCESS_TOKEN_EXPIRE_MINUTES cfg
          | None \<Rightarrow> 60 * ACCESS_TOKEN_EXPIRE_MINUTES cfg))))"
  by (simp add: create_access_token_def jwt_encode_def Let_def timedelta_minutes_def
      mult.commute split: option.splits)

lemma validate_claims_plain:
  assumes "c ''iat'' = None" "c ''nbf'' = None" "c ''aud'' = None" "c ''jti'' = None"
    "c ''at_hash'' = None" "c ''exp'' = Some (JInt x)"
  shows "validate_claims parse now c =
     (if x < now then Some JWTError
      else case c ''sub'' of None \<Rightarrow> None | Some (JStr s) \<Rightarrow> None | Some v \<Rightarrow> Some JWTError)"
  using assms
  by (simp add: validate_claims_def validate_iat_def validate_nbf_def validate_exp_def
      validate_aud_def validate_sub_def validate_jti_def validate_at_hash_def claim_int_def
      split: option.splits json.splits)





lemma default_settings_simps:
  "ACCESS_TOKEN_EXPIRE_MINUTES default_settings = 30"
  "SECRET_KEY default_settings = ''your-secret-key-here-change-this-in-production''"
  "ALGORITHM default_settings = ''HS256''"
  by (simp_all add: default_settings_def load_settings_def)




subsection \<open>Registration\<close>

text \<open>
  C5. \<^verbatim>\<open>register\<close> answers 400 ``Email already registered'' when a user has the given
  email, whether or not the username is taken too (the email is checked first); 400
  ``Username already taken'' when no user has the email and one has the username;
  otherwise it stores a new user with the next id, the given email, username and full
  name, the hash of the password (against which the password verifies) and
  \<open>is_active = 1\<close>, and answers 201 with the user's email, username, full name, id,
  active flag and creation time. The answer has no field for the hash, and is the same
  for every password and salt.
\<close>

theorem register_contract:
  "((\<exists>u \<in> set (users db). u_email u = c_email d) \<longrightarrow>
      register_route s now d db = Inl (HTTPException 400 ''Email already registered''))
   \<and> (\<not> (\<exists>u \<in> set (users db). u_email u = c_email d)
        \<and> (\<exists>u \<in> set (users db). u_username u = c_username d) \<longrightarrow>
      register_route s now d db = Inl (HTTPException 400 ''Username already taken''))
   \<and> (\<not> (\<exists>u \<in> set (users db). u_email u = c_email d)
        \<and> \<not> (\<exists>u \<in> set (users db). u_username u = c_username d) \<longrightarrow>
      register_route s now d db =
        Inr (db\<lparr> users := users db @
                   [\<lparr> u_id = users_next_id db, u_email = c_email d,
                      u_username = c_username d,
                      u_hashed_password = get_password_hash s (c_password d),
                      u_full_name = c_full_name d, u_is_active = 1, u_created_at = now \<rparr>],
                 users_next_id := users_next_id db + 1 \<rparr>,
             201,
             \<lparr> r_email = c_email d, r_username = c_username d, r_full_name = c_full_name d,
               r_id = users_next_id db, r_is_active = 1, r_created_at = now \<rparr>)
      \<and> verify_password (c_password d) (get_password_hash s (c_password d))
      \<and> map_sum id snd (register_route s' now (d\<lparr> c_password := pw' \<rparr>) db)
          = map_sum id snd (register_route s now d db))"
proof -
  have e: "find (\<lambda>u. u_email u = c_email d) (users db) = None
      \<longleftrightarrow> \<not> (\<exists>u \<in> set (users db). u_email u = c_email d)"
    by (auto simp: find_None_iff)
  have n: "find (\<lambda>u. u_username u = c_username d) (users db) = None
      \<longleftrightarrow> \<not> (\<exists>u \<in> set (users db). u_username u = c_username d)"
    by (auto simp: find_None_iff)
  show ?thesis
  proof (cases "\<exists>u \<in> set (users db). u_email u = c_email d")
    case True
    then show ?thesis using e
      by (simp add: register_route_def register_def Let_def)
  next
    case noemail: False
    show ?thesis
    proof (cases "\<exists>u \<in> set (users db). u_username u = c_username d")
      case True
      then show ?thesis using noemail e n
        by (simp add: register_route_def register_def Let_def)
    next
      case False
      then show ?thesis using noemail e n
        by (simp add: register_route_def register_def Let_def UserResponse_of_def
            verify_password_def get_password_hash_def)
    qed
  qed
qed

text \<open>
  On the registry sample: a taken email with a taken username reports the email; a new
  email with a taken username reports the username; a new email and username are
  registered with id 6.
\<close>

theorem register_contract_witness:
  "(\<exists>u \<in> set (users registry_db). u_email u = ''alice@example.com'')
   \<and> register_route 7 50 \<lparr> c_email = ''alice@example.com'', c_username = ''bob'',
         c_full_name = None, c_password = ''secret1'' \<rparr> registry_db
       = Inl (HTTPException 400 ''Email already registered'')
   \<and> register_route 7 50 \<lparr> c_email = ''frank@example.com'', c_username = ''bob'',
         c_full_name = None, c_password = ''secret1'' \<rparr> registry_db
       = Inl (HTTPException 400 ''Username already taken'')
   \<and> register_route 7 50 \<lparr> c_email = ''frank@example.com'', c_username = ''frank'',
         c_full_name = Some ''Frank'', c_password = ''secret1'' \<rparr> registry_db
       = Inr (\<lparr> users = [alice, bob, erin,
                    \<lparr> u_id = 6, u_email = ''frank@example.com'', u_username = ''frank'',
                      u_hashed_password = Bcrypt 7 ''secret1'', u_full_name = Some ''Frank'',
                      u_is_active = 1, u_created_at = 50 \<rparr>],
                 expenses = [], users_next_id = 7 \<rparr>,
              201,
              \<lparr> r_email = ''frank@example.com'', r_username = ''frank'',
                r_full_name = Some ''Frank'', r_id = 6, r_is_active = 1, r_created_at = 50 \<rparr>)"
proof -
  let ?d1 = "\<lparr> c_email = ''alice@example.com'', c_username = ''bob'',
         c_full_name = None, c_password = ''secret1'' \<rparr>"
  let ?d2 = "\<lparr> c_email = ''frank@example.com'', c_username = ''bob'',
         c_full_name = None, c_password = ''secret1'' \<rparr>"
  let ?d3 = "\<lparr> c_email = ''frank@example.com'', c_username = ''frank'',
         c_full_name = Some ''Frank'', c_password = ''secret1'' \<rparr>"
  have e1: "\<exists>u \<in> set (users registry_db). u_email u = ''alice@example.com''"
    by (simp add: registry_db_def alice_def)
  have e2: "\<not> (\<exists>u \<in> set (users registry_db). u_email u = ''frank@example.com'')"
    by (simp add: registry_db_def alice_def bob_def erin_def)
  have n2: "\<exists>u \<in> set (users registry_db). u_username u = ''bob''"
    by (simp add: registry_db_def bob_def)
  have n3: "\<not> (\<exists>u \<in> set (users registry_db). u_username u = ''frank'')"
    by (simp add: registry_db_def alice_def bob_def erin_def)
  show ?thesis
    using e1 e2 n2 n3 register_contract [of registry_db ?d1 7 50]
      register_contract [of registry_db ?d2 7 50] register_contract [of registry_db ?d3 7 50]
    by (simp add: registry_db_def get_password_hash_def)
qed

subsection \<open>Login\<close>

text \<open>
  C4, as amended. Let \<open>matched\<close> be the first user whose username is the identifier or,
  when there is none, the first user whose email is the identifier. \<^verbatim>\<open>login\<close> answers
  401 exactly when no user is matched or the password does not verify against the matched
  user's hash, and 400 ``Inactive user account'' exactly when the matched user's password
  verifies and the user is inactive. Otherwise it answers a bearer token signed with the
  configured key and algorithm whose subject is the matched user's username and whose
  expiry is \<open>ACCESS_TOKEN_EXPIRE_MINUTES\<close> minutes after now: the token decodes until
  then and not afterwards. The setting is 30 unless the environment overrides it. A user's
  email is answered as his username is, provided no account has that email as its
  username: the username match takes precedence.
\<close>

theorem login_contract:
  assumes n: "by_name = find (\<lambda>u. u_username u = form_username form) (users db)"
    and e: "by_email = find (\<lambda>u. u_email u = form_username form) (users db)"
    and m: "matched = (case by_name of Some u \<Rightarrow> Some u | None \<Rightarrow> by_email)"
  shows "(login cfg now form db = Inl (HTTPException 401 ''Incorrect username/email or password'')
        \<longleftrightarrow> (matched = None
             \<or> (\<exists>u. matched = Some u
                   \<and> \<not> verify_password (form_password form) (u_hashed_password u))))
    \<and> (login cfg now form db = Inl (HTTPException 400 ''Inactive user account'')
        \<longleftrightarrow> (\<exists>u. matched = Some u
                   \<and> verify_password (form_password form) (u_hashed_password u)
                   \<and> u_is_active u = 0))
    \<and> (\<forall>u. matched = Some u \<and> verify_password (form_password form) (u_hashed_password u)
             \<and> u_is_active u \<noteq> 0 \<longrightarrow>
          login cfg now form db =
            Inr \<lparr> access_token = jwt_encode
                    [''sub'' \<mapsto> JStr (u_username u),
                     ''exp'' \<mapsto> JInt (now + 60 * ACCESS_TOKEN_EXPIRE_MINUTES cfg)]
                    (SECRET_KEY cfg) (ALGORITHM cfg),
                  token_type = ''bearer'' \<rparr>
        \<and> (\<forall>t. jwt_decode parse t (jwt_encode
                    [''sub'' \<mapsto> JStr (u_username u),
                     ''exp'' \<mapsto> JInt (now + 60 * ACCESS_TOKEN_EXPIRE_MINUTES cfg)]
                    (SECRET_KEY cfg) (ALGORITHM cfg)) (SECRET_KEY cfg) [ALGORITHM cfg]
               = (if t \<le> now + 60 * ACCESS_TOKEN_EXPIRE_MINUTES cfg
                  then Inr [''sub'' \<mapsto> JStr (u_username u),
                            ''exp'' \<mapsto> JInt (now + 60 * ACCESS_TOKEN_EXPIRE_MINUTES cfg)]
                  else Inl JWTError)))
    \<and> ACCESS_TOKEN_EXPIRE_MINUTES (load_settings env) =
         (case env_ACCESS_TOKEN_EXPIRE_MINUTES env of None \<Rightarrow> 30 | Some k \<Rightarrow> k)
    \<and> (\<forall>u pw. find (\<lambda>x. u_username x = u_username u) (users db) = Some u
           \<and> find (\<lambda>x. u_username x = u_email u) (users db) = None
           \<and> find (\<lambda>x. u_email x = u_email u) (users db) = Some u \<longrightarrow>
          login cfg now \<lparr> form_username = u_email u, form_password = pw \<rparr> db
            = login cfg now \<lparr> form_username = u_username u, form_password = pw \<rparr> db)"
proof -
  have user: "(let user = find (\<lambda>u. u_username u = form_username form) (users db)
      in if user = None then find (\<lambda>u. u_email u = form_username form) (users db) else user)
      = matched"
    by (simp add: Let_def m n e split: option.splits)
  have tok: "create_access_token cfg now [''sub'' \<mapsto> JStr name]
        (Some (timedelta_minutes (ACCESS_TOKEN_EXPIRE_MINUTES cfg)))
      = jwt_encode [''sub'' \<mapsto> JStr name,
          ''exp'' \<mapsto> JInt (now + 60 * ACCESS_TOKEN_EXPIRE_MINUTES cfg)]
          (SECRET_KEY cfg) (ALGORITHM cfg)" for name
    by (simp add: create_access_token_Signed jwt_encode_def timedelta_minutes_def mult.commute)
  have unfold: "login cfg now form db =
      (case matched of
         None \<Rightarrow> Inl (HTTPException 401 ''Incorrect username/email or password'')
       | Some u \<Rightarrow>
           if \<not> verify_password (form_password form) (u_hashed_password u)
           then Inl (HTTPException 401 ''Incorrect username/email or password'')
           else if u_is_active u = 0
           then Inl (HTTPException 400 ''Inactive user account'')
           else Inr \<lparr> access_token = jwt_encode
                    [''sub'' \<mapsto> JStr (u_username u),
                     ''exp'' \<mapsto> JInt (now + 60 * ACCESS_TOKEN_EXPIRE_MINUTES cfg)]
                    (SECRET_KEY cfg) (ALGORITHM cfg),
                  token_type = ''bearer'' \<rparr>)"
    unfolding login_def user [unfolded Let_def] Let_def tok ..
  have p1: "login cfg now form db = Inl (HTTPException 401 ''Incorrect username/email or password'')
        \<longleftrightarrow> (matched = None
             \<or> (\<exists>u. matched = Some u
                   \<and> \<not> verify_password (form_password form) (u_hashed_password u)))"
    unfolding unfold by (cases matched) simp_all
  have p2: "login cfg now form db = Inl (HTTPException 400 ''Inactive user account'')
        \<longleftrightarrow> (\<exists>u. matched = Some u
                   \<and> verify_password (form_password form) (u_hashed_password u)
                   \<and> u_is_active u = 0)"
    unfolding unfold by (cases matched) simp_all
  have p3: "login cfg now form db =
            Inr \<lparr> access_token = jwt_encode
                    [''sub'' \<mapsto> JStr (u_username u),
                     ''exp'' \<mapsto> JInt (now + 60 * ACCESS_TOKEN_EXPIRE_MINUTES cfg)]
                    (SECRET_KEY cfg) (ALGORITHM cfg),
                  token_type = ''bearer'' \<rparr>"
    if "matched = Some u \<and> verify_password (form_password form) (u_hashed_password u)
             \<and> u_is_active u \<noteq> 0" for u
    unfolding unfold using that by simp
  have p4: "jwt_decode parse t (jwt_encode
                    [''sub'' \<mapsto> JStr name,
                     ''exp'' \<mapsto> JInt (now + 60 * ACCESS_TOKEN_EXPIRE_MINUTES cfg)]
                    (SECRET_KEY cfg) (ALGORITHM cfg)) (SECRET_KEY cfg) [ALGORITHM cfg]
               = (if t \<le> now + 60 * ACCESS_TOKEN_EXPIRE_MINUTES cfg
                  then Inr [''sub'' \<mapsto> JStr name,
                            ''exp'' \<mapsto> JInt (now + 60 * ACCESS_TOKEN_EXPIRE_MINUTES cfg)]
                  else Inl JWTError)" for t name
  proof -
    have v: "validate_claims parse t [''sub'' \<mapsto> JStr name,
          ''exp'' \<mapsto> JInt (now + 60 * ACCESS_TOKEN_EXPIRE_MINUTES cfg)]
        = (if now + 60 * ACCESS_TOKEN_EXPIRE_MINUTES cfg < t then Some JWTError else None)"
      by (subst validate_claims_plain [where x = "now + 60 * ACCESS_TOKEN_EXPIRE_MINUTES cfg"])
        simp_all
    show ?thesis
      by (simp add: jwt_encode_def jwt_decode_def v)
  qed
  have p5: "ACCESS_TOKEN_EXPIRE_MINUTES (load_settings env) =
         (case env_ACCESS_TOKEN_EXPIRE_MINUTES env of None \<Rightarrow> 30 | Some k \<Rightarrow> k)"
    by (simp add: load_settings_def)
  have p6: "login cfg now \<lparr> form_username = u_email u, form_password = pw \<rparr> db
            = login cfg now \<lparr> form_username = u_username u, form_password = pw \<rparr> db"
    if "find (\<lambda>x. u_username x = u_username u) (users db) = Some u
           \<and> find (\<lambda>x. u_username x = u_email u) (users db) = None
           \<and> find (\<lambda>x. u_email x = u_email u) (users db) = Some u" for u pw
    using that by (simp add: login_def Let_def)
  show ?thesis
    using p1 p2 p3 p4 p5 p6 by blast
qed

text \<open>
  On the registry sample with the default settings, at time 100: the first user logs in
  by username and by email with the same token, subject \<open>alice\<close>, expiring at
  \<open>100 + 30 * 60\<close>; a wrong password and an unknown identifier answer 401; the
  inactive user with the right password answers 400.
\<close>

theorem login_contract_witness:
  "login default_settings 100 \<lparr> form_username = ''alice'', form_password = ''wonderland'' \<rparr>
      registry_db
     = Inr \<lparr> access_token = Signed ''HS256'' ''your-secret-key-here-change-this-in-production''
               [''sub'' \<mapsto> JStr ''alice'', ''exp'' \<mapsto> JInt 1900],
             token_type = ''bearer'' \<rparr>
   \<and> login default_settings 100
        \<lparr> form_username = ''alice@example.com'', form_password = ''wonderland'' \<rparr> registry_db
     = login default_settings 100
        \<lparr> form_username = ''alice'', form_password = ''wonderland'' \<rparr> registry_db
   \<and> login default_settings 100 \<lparr> form_username = ''alice'', form_password = ''guess'' \<rparr>
        registry_db
     = Inl (HTTPException 401 ''Incorrect username/email or password'')
   \<and> login default_settings 100 \<lparr> form_username = ''nobody'', form_password = ''guess'' \<rparr>
        registry_db
     = Inl (HTTPException 401 ''Incorrect username/email or password'')
   \<and> login default_settings 100 \<lparr> form_username = ''erin'', form_password = ''sleeper'' \<rparr>
        registry_db
     = Inl (HTTPException 400 ''Inactive user account'')"
proof -
  have fa: "find (\<lambda>u. u_username u = ''alice'') (users registry_db) = Some alice"
    by (simp add: registry_db_def alice_def)
  have fn: "find (\<lambda>u. u_username u = ''nobody'') (users registry_db) = None"
    by (simp add: registry_db_def alice_def bob_def erin_def)
  have fne: "find (\<lambda>u. u_email u = ''nobody'') (users registry_db) = None"
    by (simp add: registry_db_def alice_def bob_def erin_def)
  have fe: "find (\<lambda>u. u_username u = ''erin'') (users registry_db) = Some erin"
    by (simp add: registry_db_def alice_def bob_def erin_def)
  have fae: "find (\<lambda>x. u_username x = u_email alice) (users registry_db) = None"
    by (simp add: registry_db_def alice_def bob_def erin_def)
  have fam: "find (\<lambda>x. u_email x = u_email alice) (users registry_db) = Some alice"
    by (simp add: registry_db_def alice_def)
  have faa: "find (\<lambda>x. u_username x = u_username alice) (users registry_db) = Some alice"
    by (simp add: registry_db_def alice_def)
  note m = default_settings_simps
  note ok = login_contract [OF refl refl refl,
      where form = "\<lparr> form_username = ''alice'', form_password = ''wonderland'' \<rparr>"
      and db = registry_db and cfg = default_settings and now = 100]
  note bad = login_contract [OF refl refl refl,
      where form = "\<lparr> form_username = ''alice'', form_password = ''guess'' \<rparr>"
      and db = registry_db and cfg = default_settings and now = 100]
  note unknown = login_contract [OF refl refl refl,
      where form = "\<lparr> form_username = ''nobody'', form_password = ''guess'' \<rparr>"
      and db = registry_db and cfg = default_settings and now = 100]
  note inactive = login_contract [OF refl refl refl,
      where form = "\<lparr> form_username = ''erin'', form_password = ''sleeper'' \<rparr>"
      and db = registry_db and cfg = default_settings and now = 100]
  have c1: "login default_settings 100
      \<lparr> form_username = ''alice'', form_password = ''wonderland'' \<rparr> registry_db
     = Inr \<lparr> access_token = Signed ''HS256'' ''your-secret-key-here-change-this-in-production''
               [''sub'' \<mapsto> JStr ''alice'', ''exp'' \<mapsto> JInt 1900],
             token_type = ''bearer'' \<rparr>"
    using ok [THEN conjunct2, THEN conjunct2, THEN conjunct1, rule_format, of alice]
    by (simp add: fa m jwt_encode_def verify_password_def) (simp add: alice_def)
  have c2: "login default_settings 100
        \<lparr> form_username = ''alice@example.com'', form_password = ''wonderland'' \<rparr> registry_db
     = login default_settings 100
        \<lparr> form_username = ''alice'', form_password = ''wonderland'' \<rparr> registry_db"
    using ok [THEN conjunct2, THEN conjunct2, THEN conjunct2, THEN conjunct2, rule_format,
        of alice "''wonderland''"] faa fae fam
    by (simp add: alice_def)
  have c3: "login default_settings 100 \<lparr> form_username = ''alice'', form_password = ''guess'' \<rparr>
        registry_db
     = Inl (HTTPException 401 ''Incorrect username/email or password'')"
    using bad [THEN conjunct1] by (simp add: fa verify_password_def) (simp add: alice_def)
  have c4: "login default_settings 100 \<lparr> form_username = ''nobody'', form_password = ''guess'' \<rparr>
        registry_db
     = Inl (HTTPException 401 ''Incorrect username/email or password'')"
    using unknown [THEN conjunct1] by (simp add: fn fne)
  have c5: "login default_settings 100 \<lparr> form_username = ''erin'', form_password = ''sleeper'' \<rparr>
        registry_db
     = Inl (HTTPException 400 ''Inactive user account'')"
    using inactive [THEN conjunct2, THEN conjunct1]
    by (simp add: fe verify_password_def) (simp add: erin_def)
  show ?thesis
    using c1 c2 c3 c4 c5 by simp
qed

text \<open>
  The claim as stated, a token with the same subject whether the identifier is the
  username or the email, fails once an account has the first user's email as its username,
  which \<^verbatim>\<open>register\<close> accepts (it compares usernames with usernames only). The first user
  still logs in by username; her email with her password now matches the other account
  and is answered 401; with the other account's password it yields a token whose subject
  is the email.
\<close>

theorem login_by_email_counterexample:
  "register 9 60 mallory_data registry_db = Inr (collision_db, mallory)
   \<and> find (\<lambda>u. u_email u = ''alice@example.com'') (users collision_db) = Some alice
   \<and> login default_settings 100
        \<lparr> form_username = ''alice'', form_password = ''wonderland'' \<rparr> collision_db
     = Inr \<lparr> access_token = Signed ''HS256'' ''your-secret-key-here-change-this-in-production''
               [''sub'' \<mapsto> JStr ''alice'', ''exp'' \<mapsto> JInt 1900],
             token_type = ''bearer'' \<rparr>
   \<and> login default_settings 100
        \<lparr> form_username = ''alice@example.com'', form_password = ''wonderland'' \<rparr> collision_db
     = Inl (HTTPException 401 ''Incorrect username/email or password'')
   \<and> login default_settings 100
        \<lparr> form_username = ''alice@example.com'', form_password = ''hunter22'' \<rparr> collision_db
     = Inr \<lparr> access_token = Signed ''HS256'' ''your-secret-key-here-change-this-in-production''
               [''sub'' \<mapsto> JStr ''alice@example.com'', ''exp'' \<mapsto> JInt 1900],
             token_type = ''bearer'' \<rparr>"
  by (simp add: register_def login_def Let_def mallory_data_def mallory_def collision_db_def
      registry_db_def alice_def bob_def erin_def get_password_hash_def verify_password_def
      create_access_token_Signed default_settings_simps timedelta_minutes_def)

subsection \<open>Profile update\<close>

lemma map_replace_twice:
  "u_id c' = u_id c \<Longrightarrow>
   map (\<lambda>u. if u_id u = u_id c then c'' else u) (map (\<lambda>u. if u_id u = u_id c then c' else u) xs)
     = map (\<lambda>u. if u_id u = u_id c then c'' else u) xs"
  by (induction xs) simp_all

lemma update_profile_unfold:
  "update_profile s p cu db =
     (if truthy (up_email p) \<and> up_email p \<noteq> Some (u_email cu)
         \<and> (\<exists>u \<in> set (users db). Some (u_email u) = up_email p)
      then Inl (HTTPException 400 ''Email already in use'')
      else if truthy (up_username p) \<and> up_username p \<noteq> Some (u_username cu)
         \<and> (\<exists>u \<in> set (users db). Some (u_username u) = up_username p)
      then Inl (HTTPException 400 ''Username already taken'')
      else Inr (db\<lparr> users := map (\<lambda>u. if u_id u = u_id cu then profile_after s p cu else u) (users db) \<rparr>,
                profile_after s p cu))"
proof -
  have e: "find (\<lambda>u. Some (u_email u) = up_email p) (users db) \<noteq> None
      \<longleftrightarrow> (\<exists>u \<in> set (users db). Some (u_email u) = up_email p)"
    by (auto simp: find_None_iff)
  have n: "find (\<lambda>u. Some (u_username u) = up_username p) (users db) \<noteq> None
      \<longleftrightarrow> (\<exists>u \<in> set (users db). Some (u_username u) = up_username p)"
    by (auto simp: find_None_iff)
  have body: "(let current_user = (case up_email p of
              Some v \<Rightarrow> if v \<noteq> [] then cu\<lparr> u_email := v \<rparr> else cu
            | None \<Rightarrow> cu);
            current_user = (case up_username p of
              Some v \<Rightarrow> if v \<noteq> [] then current_user\<lparr> u_username := v \<rparr> else current_user
            | None \<Rightarrow> current_user);
            current_user = (case up_full_name p of
              Some v \<Rightarrow> if v \<noteq> [] then current_user\<lparr> u_full_name := Some v \<rparr> else current_user
            | None \<Rightarrow> current_user);
            current_user = (case up_password p of
              Some v \<Rightarrow> if v \<noteq> []
                then current_user\<lparr> u_hashed_password := get_password_hash s v \<rparr>
                else current_user
            | None \<Rightarrow> current_user)
        in Inr (db\<lparr> users := map (\<lambda>u. if u_id u = u_id current_user then current_user else u)
                               (users db) \<rparr>,
                current_user))
      = (Inr (db\<lparr> users := map (\<lambda>u. if u_id u = u_id cu then profile_after s p cu else u) (users db) \<rparr>,
                profile_after s p cu) :: error + (database \<times> User))"
    by (cases "up_email p"; cases "up_username p"; cases "up_full_name p"; cases "up_password p")
       (simp_all add: Let_def profile_after_def)
  show ?thesis
    unfolding update_profile_def e n body ..
qed

text \<open>
  C9, as amended. \<^verbatim>\<open>update_profile\<close> answers 400 ``Email already in use'' when the
  patch gives a non-empty email other than the caller's own that a user holds, and 400
  ``Username already taken'' likewise for the username (the email is checked first); the
  caller's own current email or username never conflicts. Otherwise it succeeds: each of
  email, username, full name and password is applied when the patch gives it with a
  non-empty value, independently of the others, and keeps its stored value otherwise; the
  password is stored as a fresh hash, against which it verifies; id, active flag and
  creation time are untouched, as are the other users and the expenses. Applying the same
  patch again succeeds and leaves email, username, full name, id, active flag and creation
  time as they were after the first application; the stored hash verifies the same
  passwords, and is the same stored value when the patch gives no password (or the hash
  draws the same salt).
\<close>

theorem update_profile_contract:
  "(truthy (up_email p) \<and> up_email p \<noteq> Some (u_email cu)
      \<and> (\<exists>u \<in> set (users db). Some (u_email u) = up_email p) \<longrightarrow>
      update_profile s p cu db = Inl (HTTPException 400 ''Email already in use''))
   \<and> (\<not> (truthy (up_email p) \<and> up_email p \<noteq> Some (u_email cu)
           \<and> (\<exists>u \<in> set (users db). Some (u_email u) = up_email p))
      \<and> truthy (up_username p) \<and> up_username p \<noteq> Some (u_username cu)
      \<and> (\<exists>u \<in> set (users db). Some (u_username u) = up_username p) \<longrightarrow>
      update_profile s p cu db = Inl (HTTPException 400 ''Username already taken''))
   \<and> (\<not> (truthy (up_email p) \<and> up_email p \<noteq> Some (u_email cu)
           \<and> (\<exists>u \<in> set (users db). Some (u_email u) = up_email p))
      \<and> \<not> (truthy (up_username p) \<and> up_username p \<noteq> Some (u_username cu)
           \<and> (\<exists>u \<in> set (users db). Some (u_username u) = up_username p)) \<longrightarrow>
      (\<exists>db' cu'. update_profile s p cu db = Inr (db', cu')
         \<and> u_email cu' = (case up_email p of
               Some v \<Rightarrow> if v \<noteq> [] then v else u_email cu | None \<Rightarrow> u_email cu)
         \<and> u_username cu' = (case up_username p of
               Some v \<Rightarrow> if v \<noteq> [] then v else u_username cu | None \<Rightarrow> u_username cu)
         \<and> u_full_name cu' = (case up_full_name p of
               Some v \<Rightarrow> if v \<noteq> [] then Some v else u_full_name cu | None \<Rightarrow> u_full_name cu)
         \<and> u_hashed_password cu' = (case up_password p of
               Some v \<Rightarrow> if v \<noteq> [] then get_password_hash s v else u_hashed_password cu
             | None \<Rightarrow> u_hashed_password cu)
         \<and> (\<forall>v. up_password p = Some v \<and> v \<noteq> [] \<longrightarrow>
               verify_password v (u_hashed_password cu'))
         \<and> u_id cu' = u_id cu \<and> u_is_active cu' = u_is_active cu
         \<and> u_created_at cu' = u_created_at cu
         \<and> users db' = map (\<lambda>u. if u_id u = u_id cu then cu' else u) (users db)
         \<and> expenses db' = expenses db
         \<and> (\<forall>s'. \<exists>db'' cu''. update_profile s' p cu' db' = Inr (db'', cu'')
               \<and> u_email cu'' = u_email cu' \<and> u_username cu'' = u_username cu'
               \<and> u_full_name cu'' = u_full_name cu' \<and> u_id cu'' = u_id cu'
               \<and> u_is_active cu'' = u_is_active cu' \<and> u_created_at cu'' = u_created_at cu'
               \<and> (\<forall>pw. verify_password pw (u_hashed_password cu'')
                         = verify_password pw (u_hashed_password cu'))
               \<and> (s' = s \<or> \<not> truthy (up_password p) \<longrightarrow> cu'' = cu' \<and> db'' = db'))))"
proof -
  let ?cu' = "profile_after s p cu"
  let ?db' = "db\<lparr> users := map (\<lambda>u. if u_id u = u_id cu then ?cu' else u) (users db) \<rparr>"
  have noe: "\<not> (truthy (up_email p) \<and> up_email p \<noteq> Some (u_email ?cu'))"
    by (cases "up_email p") (simp_all add: truthy_def profile_after_def)
  have non: "\<not> (truthy (up_username p) \<and> up_username p \<noteq> Some (u_username ?cu'))"
    by (cases "up_username p") (simp_all add: truthy_def profile_after_def)
  have id': "u_id ?cu' = u_id cu"
    by (simp add: profile_after_def)
  have again: "profile_after s' p ?cu' = ?cu'\<lparr> u_hashed_password := (case up_password p of
        Some v \<Rightarrow> if v \<noteq> [] then get_password_hash s' v else u_hashed_password cu
      | None \<Rightarrow> u_hashed_password cu) \<rparr>" for s'
    by (cases "up_email p"; cases "up_username p"; cases "up_full_name p"; cases "up_password p")
       (simp_all add: profile_after_def)
  have second: "update_profile s' p ?cu' ?db' =
      Inr (db\<lparr> users := map (\<lambda>u. if u_id u = u_id cu then profile_after s' p ?cu' else u)
                  (users db) \<rparr>, profile_after s' p ?cu')" for s'
    unfolding update_profile_unfold [of s' p ?cu' ?db'] using noe non
    by (simp add: id' map_replace_twice [OF id'])
  have ver: "verify_password pw (u_hashed_password (profile_after s' p ?cu'))
      = verify_password pw (u_hashed_password ?cu')" for s' pw
    unfolding again
    by (cases "up_password p")
       (simp_all add: profile_after_def verify_password_def get_password_hash_def)
  have same: "profile_after s' p ?cu' = ?cu'" if "s' = s \<or> \<not> truthy (up_password p)" for s'
    unfolding again using that
    by (cases "up_password p") (auto simp: profile_after_def truthy_def)
  have idem: "\<exists>db'' cu''. update_profile s' p ?cu' ?db' = Inr (db'', cu'')
               \<and> u_email cu'' = u_email ?cu' \<and> u_username cu'' = u_username ?cu'
               \<and> u_full_name cu'' = u_full_name ?cu' \<and> u_id cu'' = u_id ?cu'
               \<and> u_is_active cu'' = u_is_active ?cu' \<and> u_created_at cu'' = u_created_at ?cu'
               \<and> (\<forall>pw. verify_password pw (u_hashed_password cu'')
                         = verify_password pw (u_hashed_password ?cu'))
               \<and> (s' = s \<or> \<not> truthy (up_password p) \<longrightarrow> cu'' = ?cu' \<and> db'' = ?db')" for s'
  proof -
    let ?cu'' = "profile_after s' p ?cu'"
    let ?db'' = "db\<lparr> users := map (\<lambda>u. if u_id u = u_id cu then ?cu'' else u) (users db) \<rparr>"
    have f: "u_email ?cu'' = u_email ?cu' \<and> u_username ?cu'' = u_username ?cu'
        \<and> u_full_name ?cu'' = u_full_name ?cu' \<and> u_id ?cu'' = u_id ?cu'
        \<and> u_is_active ?cu'' = u_is_active ?cu' \<and> u_created_at ?cu'' = u_created_at ?cu'"
      by (simp add: again)
    have sm: "s' = s \<or> \<not> truthy (up_password p) \<longrightarrow> ?cu'' = ?cu' \<and> ?db'' = ?db'"
      using same [of s'] by auto
    have v: "\<forall>pw. verify_password pw (u_hashed_password ?cu'')
        = verify_password pw (u_hashed_password ?cu')"
      using ver by blast
    show ?thesis
      apply (rule exI [of _ ?db''], rule exI [of _ ?cu''])
      apply (intro conjI)
      using second [of s'] f v sm apply blast+
      done
  qed
  have fields: "u_email ?cu' = (case up_email p of
               Some v \<Rightarrow> if v \<noteq> [] then v else u_email cu | None \<Rightarrow> u_email cu)
         \<and> u_username ?cu' = (case up_username p of
               Some v \<Rightarrow> if v \<noteq> [] then v else u_username cu | None \<Rightarrow> u_username cu)
         \<and> u_full_name ?cu' = (case up_full_name p of
               Some v \<Rightarrow> if v \<noteq> [] then Some v else u_full_name cu | None \<Rightarrow> u_full_name cu)
         \<and> u_hashed_password ?cu' = (case up_password p of
               Some v \<Rightarrow> if v \<noteq> [] then get_password_hash s v else u_hashed_password cu
             | None \<Rightarrow> u_hashed_password cu)
         \<and> (\<forall>v. up_password p = Some v \<and> v \<noteq> [] \<longrightarrow>
               verify_password v (u_hashed_password ?cu'))
         \<and> u_id ?cu' = u_id cu \<and> u_is_active ?cu' = u_is_active cu
         \<and> u_created_at ?cu' = u_created_at cu"
    by (simp add: profile_after_def verify_password_def get_password_hash_def)
  have ok: "\<exists>db' cu'. update_profile s p cu db = Inr (db', cu')
         \<and> u_email cu' = (case up_email p of
               Some v \<Rightarrow> if v \<noteq> [] then v else u_email cu | None \<Rightarrow> u_email cu)
         \<and> u_username cu' = (case up_username p of
               Some v \<Rightarrow> if v \<noteq> [] then v else u_username cu | None \<Rightarrow> u_username cu)
         \<and> u_full_name cu' = (case up_full_name p of
               Some v \<Rightarrow> if v \<noteq> [] then Some v else u_full_name cu | None \<Rightarrow> u_full_name cu)
         \<and> u_hashed_password cu' = (case up_password p of
               Some v \<Rightarrow> if v \<noteq> [] then get_password_hash s v else u_hashed_password cu
             | None \<Rightarrow> u_hashed_password cu)
         \<and> (\<forall>v. up_password p = Some v \<and> v \<noteq> [] \<longrightarrow>
               verify_password v (u_hashed_password cu'))
         \<and> u_id cu' = u_id cu \<and> u_is_active cu' = u_is_active cu
         \<and> u_created_at cu' = u_created_at cu
         \<and> users db' = map (\<lambda>u. if u_id u = u_id cu then cu' else u) (users db)
         \<and> expenses db' = expenses db
         \<and> (\<forall>s'. \<exists>db'' cu''. update_profile s' p cu' db' = Inr (db'', cu'')
               \<and> u_email cu'' = u_email cu' \<and> u_username cu'' = u_username cu'
               \<and> u_full_name cu'' = u_full_name cu' \<and> u_id cu'' = u_id cu'
               \<and> u_is_active cu'' = u_is_active cu' \<and> u_created_at cu'' = u_created_at cu'
               \<and> (\<forall>pw. verify_password pw (u_hashed_password cu'')
                         = verify_password pw (u_hashed_password cu'))
               \<and> (s' = s \<or> \<not> truthy (up_password p) \<longrightarrow> cu'' = cu' \<and> db'' = db'))"
    if "\<not> (truthy (up_email p) \<and> up_email p \<noteq> Some (u_email cu)
           \<and> (\<exists>u \<in> set (users db). Some (u_email u) = up_email p))
      \<and> \<not> (truthy (up_username p) \<and> up_username p \<noteq> Some (u_username cu)
           \<and> (\<exists>u \<in> set (users db). Some (u_username u) = up_username p))"
  proof -
    have first: "update_profile s p cu db = Inr (?db', ?cu')"
      unfolding update_profile_unfold using that by auto
    have stored: "users ?db' = map (\<lambda>u. if u_id u = u_id cu then ?cu' else u) (users db)
         \<and> expenses ?db' = expenses db"
      by simp
    show ?thesis
      apply (rule exI [of _ ?db'], rule exI [of _ ?cu'])
      apply (intro conjI)
      using first fields stored idem apply blast+
      done
  qed
  have c1: "truthy (up_email p) \<and> up_email p \<noteq> Some (u_email cu)
      \<and> (\<exists>u \<in> set (users db). Some (u_email u) = up_email p) \<longrightarrow>
      update_profile s p cu db = Inl (HTTPException 400 ''Email already in use'')"
    unfolding update_profile_unfold by simp
  have c2: "\<not> (truthy (up_email p) \<and> up_email p \<noteq> Some (u_email cu)
           \<and> (\<exists>u \<in> set (users db). Some (u_email u) = up_email p))
      \<and> truthy (up_username p) \<and> up_username p \<noteq> Some (u_username cu)
      \<and> (\<exists>u \<in> set (users db). Some (u_username u) = up_username p) \<longrightarrow>
      update_profile s p cu db = Inl (HTTPException 400 ''Username already taken'')"
    unfolding update_profile_unfold by auto
  show ?thesis
    using c1 c2 ok by blast
qed

text \<open>
  On the registry sample: the first user cannot take the second user's email or username,
  and may submit her own email and username together with a new full name.
\<close>

theorem update_profile_contract_witness:
  "update_profile 7 \<lparr> up_email = Some ''bob@example.com'', up_username = None,
       up_full_name = None, up_password = None \<rparr> alice registry_db
     = Inl (HTTPException 400 ''Email already in use'')
   \<and> update_profile 7 \<lparr> up_email = None, up_username = Some ''bob'',
       up_full_name = None, up_password = None \<rparr> alice registry_db
     = Inl (HTTPException 400 ''Username already taken'')
   \<and> map_sum id (\<lambda>(d, u). (u_email u, u_username u, u_full_name u, u_hashed_password u))
        (update_profile 7 \<lparr> up_email = Some ''alice@example.com'', up_username = Some ''alice'',
           up_full_name = Some ''Alice L'', up_password = None \<rparr> alice registry_db)
     = Inr (''alice@example.com'', ''alice'', Some ''Alice L'', Bcrypt 11 ''wonderland'')"
proof -
  let ?p1 = "\<lparr> up_email = Some ''bob@example.com'', up_username = None,
       up_full_name = None, up_password = None \<rparr>"
  let ?p2 = "\<lparr> up_email = None, up_username = Some ''bob'',
       up_full_name = None, up_password = None \<rparr>"
  let ?p3 = "\<lparr> up_email = Some ''alice@example.com'', up_username = Some ''alice'',
           up_full_name = Some ''Alice L'', up_password = None \<rparr>"
  have h1: "truthy (up_email ?p1) \<and> up_email ?p1 \<noteq> Some (u_email alice)
      \<and> (\<exists>u \<in> set (users registry_db). Some (u_email u) = up_email ?p1)"
    by (simp add: truthy_def alice_def bob_def registry_db_def)
  have c1: "update_profile 7 ?p1 alice registry_db = Inl (HTTPException 400 ''Email already in use'')"
    using update_profile_contract [of ?p1 alice registry_db 7] h1 by blast
  have h2: "\<not> (truthy (up_email ?p2) \<and> up_email ?p2 \<noteq> Some (u_email alice)
           \<and> (\<exists>u \<in> set (users registry_db). Some (u_email u) = up_email ?p2))
      \<and> truthy (up_username ?p2) \<and> up_username ?p2 \<noteq> Some (u_username alice)
      \<and> (\<exists>u \<in> set (users registry_db). Some (u_username u) = up_username ?p2)"
    by (simp add: truthy_def alice_def bob_def registry_db_def)
  have c2: "update_profile 7 ?p2 alice registry_db
      = Inl (HTTPException 400 ''Username already taken'')"
    using update_profile_contract [of ?p2 alice registry_db 7] h2 by blast
  have h3: "\<not> (truthy (up_email ?p3) \<and> up_email ?p3 \<noteq> Some (u_email alice)
           \<and> (\<exists>u \<in> set (users registry_db). Some (u_email u) = up_email ?p3))
      \<and> \<not> (truthy (up_username ?p3) \<and> up_username ?p3 \<noteq> Some (u_username alice)
           \<and> (\<exists>u \<in> set (users registry_db). Some (u_username u) = up_username ?p3))"
    by (simp add: alice_def)
  obtain db' cu' where r: "update_profile 7 ?p3 alice registry_db = Inr (db', cu')"
    and f: "u_email cu' = (case up_email ?p3 of
               Some v \<Rightarrow> if v \<noteq> [] then v else u_email alice | None \<Rightarrow> u_email alice)"
      "u_username cu' = (case up_username ?p3 of
               Some v \<Rightarrow> if v \<noteq> [] then v else u_username alice | None \<Rightarrow> u_username alice)"
      "u_full_name cu' = (case up_full_name ?p3 of
               Some v \<Rightarrow> if v \<noteq> [] then Some v else u_full_name alice | None \<Rightarrow> u_full_name alice)"
      "u_hashed_password cu' = (case up_password ?p3 of
               Some v \<Rightarrow> if v \<noteq> [] then get_password_hash 7 v else u_hashed_password alice
             | None \<Rightarrow> u_hashed_password alice)"
    using update_profile_contract [of ?p3 alice registry_db 7] h3 by blast
  have c3: "map_sum id (\<lambda>(d, u). (u_email u, u_username u, u_full_name u, u_hashed_password u))
        (update_profile 7 ?p3 alice registry_db)
     = Inr (''alice@example.com'', ''alice'', Some ''Alice L'', Bcrypt 11 ''wonderland'')"
  proof -
    have "u_email cu' = ''alice@example.com'' \<and> u_username cu' = ''alice''
        \<and> u_full_name cu' = Some ''Alice L''
        \<and> u_hashed_password cu' = Bcrypt 11 ''wonderland''"
      using f by (simp add: alice_def)
    then show ?thesis by (simp add: r)
  qed
  show ?thesis
    using c1 c2 c3 by simp
qed

text \<open>
  The same patch applied twice does not leave the stored fields of one application: the
  password patch applied to the first user stores a hash with the salt of the first call,
  and applied again a hash with the salt of the second call, a different stored value.
\<close>

theorem update_profile_twice_counterexample:
  "update_profile 21 password_patch alice registry_db
     = Inr (registry_db\<lparr> users :=
              [alice\<lparr> u_hashed_password := Bcrypt 21 ''newsecret'' \<rparr>, bob, erin] \<rparr>,
            alice\<lparr> u_hashed_password := Bcrypt 21 ''newsecret'' \<rparr>)
   \<and> update_profile 22 password_patch (alice\<lparr> u_hashed_password := Bcrypt 21 ''newsecret'' \<rparr>)
        (registry_db\<lparr> users :=
              [alice\<lparr> u_hashed_password := Bcrypt 21 ''newsecret'' \<rparr>, bob, erin] \<rparr>)
     = Inr (registry_db\<lparr> users :=
              [alice\<lparr> u_hashed_password := Bcrypt 22 ''newsecret'' \<rparr>, bob, erin] \<rparr>,
            alice\<lparr> u_hashed_password := Bcrypt 22 ''newsecret'' \<rparr>)
   \<and> u_hashed_password (alice\<lparr> u_hashed_password := Bcrypt 22 ''newsecret'' \<rparr>)
     \<noteq> u_hashed_password (alice\<lparr> u_hashed_password := Bcrypt 21 ''newsecret'' \<rparr>)
   \<and> registry_db\<lparr> users := [alice\<lparr> u_hashed_password := Bcrypt 22 ''newsecret'' \<rparr>, bob, erin] \<rparr>
     \<noteq> registry_db\<lparr> users := [alice\<lparr> u_hashed_password := Bcrypt 21 ''newsecret'' \<rparr>, bob, erin] \<rparr>"
  by (simp add: update_profile_def password_patch_def truthy_def Let_def registry_db_def
      alice_def bob_def erin_def get_password_hash_def)

end
